theory Spec2Isabelle
  imports Complex_Main "HOL-Library.AList" "HOL-Library.Sublist" "HOL-Library.Log_Nat"
begin

section \<open>The host platform as the adapter sees it\<close>

text \<open>
  The module \<^verbatim>\<open>custom_components/qilowatt/inverter/huawei.py\<close> reads three stores of the
  host platform: the entity registry, the device registry and the state machine. They
  are not code of this repository, so they are taken as data: the registries as the
  lists that \<^verbatim>\<open>.entities.values()\<close> and \<^verbatim>\<open>.devices.values()\<close> iterate over (in
  iteration order), the state machine as the partial map that \<^verbatim>\<open>hass.states.get\<close>
  looks up. Text is a \<^typ>\<open>string\<close>, read as a sequence of code points below 256.
\<close>

datatype RegistryEntryDisabler = CONFIG_ENTRY | DEVICE | HASS | INTEGRATION | USER

text \<open>
  An entity of the registry. \<^verbatim>\<open>disabled_by\<close> is \<^verbatim>\<open>None\<close> or a member of a string
  enumeration whose members are all non-empty, so \<^verbatim>\<open>not entity.disabled_by\<close> holds
  exactly when the field is \<^verbatim>\<open>None\<close>.
\<close>

record RegistryEntry =
  entity_id :: string
  device_id :: "string option"
  disabled_by :: "RegistryEntryDisabler option"

text \<open>A device of the registry; the field \<^verbatim>\<open>id\<close> is written \<open>id'\<close>.\<close>

record DeviceEntry =
  id' :: string
  via_device_id :: "string option"

record State =
  state :: string

record HomeAssistant =
  entities :: "RegistryEntry list"
  devices :: "DeviceEntry list"
  states :: "string \<rightharpoonup> State"

section \<open>Python values\<close>

datatype py_error = KeyError | ValueError | OverflowError

subsection \<open>Floating point\<close>

text \<open>
  A Python \<^verbatim>\<open>float\<close> is an IEEE 754 binary64 value: a signed finite magnitude (the
  flag is the sign bit, so \<open>Finite True 0\<close> is \<^verbatim>\<open>-0.0\<close>), a signed infinity, or
  not-a-number. A finite magnitude is a non-negative rational; the operations below
  produce only magnitudes that binary64 represents.
\<close>

datatype pyfloat = Finite bool rat | Inf bool | NaN

text \<open>Rounding to the nearest integer, ties to the even one.\<close>

definition round_half_even :: "rat \<Rightarrow> int" where
  "round_half_even x =
     (let f = \<lfloor>x\<rfloor>; r = x - of_int f
      in if r < 1 / 2 then f else if 1 / 2 < r then f + 1 else if even f then f else f + 1)"

text \<open>The exponent \<open>k\<close> with \<open>2 ^ k \<le> q < 2 ^ (k + 1)\<close>, for a positive \<open>q\<close>.\<close>

definition flog2 :: "rat \<Rightarrow> int" where
  "flog2 q = (if 1 \<le> q then bitlen \<lfloor>q\<rfloor> - 1 else - bitlen (\<lceil>1 / q\<rceil> - 1))"

text \<open>
  The exponent of the unit in the last place of the binary64 values around \<open>q\<close>: 53
  significant bits, and never below the subnormal spacing \<open>2 ^ - 1074\<close>.
\<close>

definition ulp_exponent :: "rat \<Rightarrow> int" where
  "ulp_exponent q = max (flog2 q - 52) (- 1074)"

text \<open>
  The binary64 value nearest to the magnitude \<open>q\<close> (round to nearest, ties to even), an
  infinity once the rounded magnitude reaches \<open>2 ^ 1024\<close>.
\<close>

definition round_double :: "bool \<Rightarrow> rat \<Rightarrow> pyfloat" where
  "round_double sign q =
     (if q = 0 then Finite sign 0
      else let e = ulp_exponent q; r = of_int (round_half_even (q / 2 powi e)) * 2 powi e
      in if 2 ^ 1024 \<le> r then Inf sign else Finite sign r)"

definition signed_value :: "bool \<Rightarrow> rat \<Rightarrow> rat" where
  "signed_value sign q = (if sign then - q else q)"

fun f_neg :: "pyfloat \<Rightarrow> pyfloat" where
  "f_neg (Finite s q) = Finite (\<not> s) q"
| "f_neg (Inf s) = Inf (\<not> s)"
| "f_neg NaN = NaN"

text \<open>\<^verbatim>\<open>x * y\<close> on floats.\<close>

fun f_mul :: "pyfloat \<Rightarrow> pyfloat \<Rightarrow> pyfloat" where
  "f_mul NaN y = NaN"
| "f_mul x NaN = NaN"
| "f_mul (Inf s) (Inf t) = Inf (s \<noteq> t)"
| "f_mul (Inf s) (Finite t q) = (if q = 0 then NaN else Inf (s \<noteq> t))"
| "f_mul (Finite s p) (Inf t) = (if p = 0 then NaN else Inf (s \<noteq> t))"
| "f_mul (Finite s p) (Finite t q) = round_double (s \<noteq> t) (p * q)"

text \<open>\<^verbatim>\<open>x + y\<close> and \<^verbatim>\<open>x - y\<close> on floats; an exact zero sum is negative only when both
  operands are.\<close>

fun f_add :: "pyfloat \<Rightarrow> pyfloat \<Rightarrow> pyfloat" where
  "f_add NaN y = NaN"
| "f_add x NaN = NaN"
| "f_add (Inf s) (Inf t) = (if s = t then Inf s else NaN)"
| "f_add (Inf s) (Finite t q) = Inf s"
| "f_add (Finite s p) (Inf t) = Inf t"
| "f_add (Finite s p) (Finite t q) =
     (let v = signed_value s p + signed_value t q
      in if v = 0 then Finite (s \<and> t) 0 else round_double (v < 0) \<bar>v\<bar>)"

definition f_sub :: "pyfloat \<Rightarrow> pyfloat \<Rightarrow> pyfloat" where
  "f_sub x y = f_add x (f_neg y)"

text \<open>The integer \<^verbatim>\<open>-1\<close> as the float it is converted to in \<^verbatim>\<open>x * -1\<close>.\<close>

definition minus_one :: pyfloat where
  "minus_one = Finite True 1"

definition float_zero :: pyfloat where
  "float_zero = Finite False 0"

text \<open>
  \<^verbatim>\<open>int(x)\<close> of a float: truncation toward zero; an infinity raises
  \<^verbatim>\<open>OverflowError\<close>, not-a-number raises \<^verbatim>\<open>ValueError\<close>.
\<close>

fun int_of_float :: "pyfloat \<Rightarrow> py_error + int" where
  "int_of_float (Finite s q) = Inr (if s then - \<lfloor>q\<rfloor> else \<lfloor>q\<rfloor>)"
| "int_of_float (Inf s) = Inl OverflowError"
| "int_of_float NaN = Inl ValueError"

subsection \<open>\<^verbatim>\<open>float(text)\<close>\<close>

text \<open>
  The conversion of a string by \<^verbatim>\<open>float\<close>, as the interpreter does it: underscores
  are removed where they stand between two digits (anywhere else they are an error),
  white space is stripped at both ends, and what remains is an optionally signed decimal
  number with optional fraction and exponent, or \<^verbatim>\<open>inf\<close>, \<^verbatim>\<open>infinity\<close> or \<^verbatim>\<open>nan\<close>
  in any case. The value is rounded to binary64; a number too large becomes an infinity.
  The only exception is \<^verbatim>\<open>ValueError\<close>, the result \<open>None\<close>. (The interpreter also
  refuses a number of more than \<open>10 ^ 9\<close> digits; texts of that length are left out.)
\<close>

definition is_digit :: "char \<Rightarrow> bool" where
  "is_digit c \<longleftrightarrow> 48 \<le> (of_char c :: nat) \<and> (of_char c :: nat) \<le> 57"

text \<open>
  The white space that is stripped: tab, line feed, vertical tab, form feed, carriage
  return and space, and the two further white space characters below 256, next line and
  no-break space, which the interpreter turns into spaces first.
\<close>

definition is_space :: "char \<Rightarrow> bool" where
  "is_space c \<longleftrightarrow> (of_char c :: nat) \<in> set [9, 10, 11, 12, 13, 32, 133, 160]"

definition to_lower :: "char \<Rightarrow> char" where
  "to_lower c =
     (if 65 \<le> (of_char c :: nat) \<and> (of_char c :: nat) \<le> 90
      then char_of ((of_char c :: nat) + 32) else c)"

text \<open>
  Underscores, removed in one pass before anything else: \<open>prev\<close> is the character
  before the one looked at (a NUL at the start). An underscore must follow a digit, the
  character after an underscore must be a digit, and the text must not end with one.
\<close>

fun strip_underscores :: "char \<Rightarrow> string \<Rightarrow> string option" where
  "strip_underscores prev [] = (if prev = CHR ''_'' then None else Some [])"
| "strip_underscores prev (c # cs) =
     (if c = CHR ''_''
      then (if is_digit prev then strip_underscores c cs else None)
      else if prev = CHR ''_'' \<and> \<not> is_digit c then None
      else map_option ((#) c) (strip_underscores c cs))"

text \<open>White space is dropped at the front, then at the back.\<close>

definition strip_space :: "string \<Rightarrow> string" where
  "strip_space s = rev (dropWhile is_space (rev (dropWhile is_space s)))"

definition parse_sign :: "string \<Rightarrow> bool \<times> string" where
  "parse_sign s =
     (case s of
        c # r \<Rightarrow> if c = CHR ''-'' then (True, r) else if c = CHR ''+'' then (False, r)
                 else (False, s)
      | [] \<Rightarrow> (False, s))"

definition digits_value :: "string \<Rightarrow> nat" where
  "digits_value ds = foldl (\<lambda>a c. 10 * a + ((of_char c :: nat) - 48)) 0 ds"

text \<open>The exponent part: its value and the rest of the text; without a digit after
  \<^verbatim>\<open>e\<close> nothing is consumed.\<close>

definition parse_exponent :: "string \<Rightarrow> int \<times> string" where
  "parse_exponent s =
     (case s of
        c # r \<Rightarrow>
          if c = CHR ''e'' \<or> c = CHR ''E''
          then (let (esign, r') = parse_sign r; es = takeWhile is_digit r'
                in if es = [] then (0, s)
                   else (if esign then - int (digits_value es) else int (digits_value es),
                         dropWhile is_digit r'))
          else (0, s)
      | [] \<Rightarrow> (0, s))"

text \<open>The decimal number: \<open>None\<close> when there is no digit before the exponent, else the
  value and the rest of the text.\<close>

definition parse_decimal :: "string \<Rightarrow> (pyfloat \<times> string) option" where
  "parse_decimal s =
     (let (sign, r0) = parse_sign s;
          ds1 = takeWhile is_digit r0; r1 = dropWhile is_digit r0;
          (ds2, r2) = (case r1 of
                         c # r \<Rightarrow> if c = CHR ''.''
                                  then (takeWhile is_digit r, dropWhile is_digit r)
                                  else ([], r1)
                       | [] \<Rightarrow> ([], r1))
      in if ds1 = [] \<and> ds2 = [] then None
         else (let (e, r3) = parse_exponent r2
               in Some (round_double sign
                          (of_nat (digits_value (ds1 @ ds2)) * 10 powi (e - int (length ds2))),
                        r3)))"

text \<open>
  The text \<open>s\<close> starts with the lower-case word \<open>t\<close>, letters compared without
  case; and the words \<^verbatim>\<open>inf\<close>, \<^verbatim>\<open>infinity\<close> and \<^verbatim>\<open>nan\<close> after an optional sign,
  which are tried when no decimal number was read.
\<close>

definition ci_match :: "string \<Rightarrow> string \<Rightarrow> bool" where
  "ci_match s t \<longleftrightarrow> length t \<le> length s \<and> map to_lower (take (length t) s) = t"

definition parse_inf_or_nan :: "string \<Rightarrow> (pyfloat \<times> string) option" where
  "parse_inf_or_nan s =
     (let (sign, r) = parse_sign s
      in if ci_match r ''inf''
         then (if ci_match (drop 3 r) ''inity'' then Some (Inf sign, drop 8 r)
               else Some (Inf sign, drop 3 r))
         else if ci_match r ''nan'' then Some (NaN, drop 3 r)
         else None)"

definition float_of_str :: "string \<Rightarrow> pyfloat option" where
  "float_of_str s =
     (case strip_underscores (CHR 0x00) s of
        None \<Rightarrow> None
      | Some s' \<Rightarrow>
          (let t = strip_space s'
           in case (case parse_decimal t of None \<Rightarrow> parse_inf_or_nan t | Some r \<Rightarrow> Some r) of
                None \<Rightarrow> None
              | Some (x, rest) \<Rightarrow> if rest = [] then Some x else None))"

section \<open>The records of the telemetry library\<close>

text \<open>
  \<^verbatim>\<open>EnergyData\<close> and \<^verbatim>\<open>MetricsData\<close> of the \<^verbatim>\<open>qilowatt\<close> library, with the keyword
  arguments the adapter passes as fields.
\<close>

record EnergyData =
  Power :: "pyfloat list"
  Today :: int
  Total :: pyfloat
  Current :: "pyfloat list"
  Voltage :: "pyfloat list"
  Frequency :: pyfloat

record MetricsData =
  PvPower :: "pyfloat list"
  PvVoltage :: "pyfloat list"
  PvCurrent :: "pyfloat list"
  LoadPower :: "pyfloat list"
  AlarmCodes :: "int list"
  BatterySOC :: int
  LoadCurrent :: "pyfloat list"
  BatteryPower :: "pyfloat list"
  BatteryCurrent :: "pyfloat list"
  BatteryVoltage :: "pyfloat list"
  InverterStatus :: int
  GridExportLimit :: pyfloat
  BatteryTemperature :: "pyfloat list"
  InverterTemperature :: pyfloat

section \<open>The adapter\<close>

text \<open>
  The instance attributes that \<^verbatim>\<open>HuaweiInverter\<close> assigns: \<^verbatim>\<open>device_id\<close> (written
  \<open>self_device_id\<close>, the entity record owning the other name), \<^verbatim>\<open>all_entities\<close>, a
  dictionary in insertion order, and \<^verbatim>\<open>voltage\<close>, which does not exist until
  \<^verbatim>\<open>get_energy_data\<close> assigns it. \<^verbatim>\<open>self.hass\<close> is a reference to the platform, whose
  current content every method takes as an argument. Attributes set by the base class
  are the extension of the record.
\<close>

record HuaweiInverter =
  self_device_id :: string
  all_entities :: "(string \<times> RegistryEntry) list"
  voltage :: "pyfloat list option"

subsection \<open>\<^verbatim>\<open>collect_device_entities\<close>\<close>

text \<open>
  \<^verbatim>\<open>all_entities[entity.entity_id] = entity\<close> is \<^const>\<open>AList.update\<close>: the value of a
  key already in the dictionary is replaced where it stands, a new key goes to the end.
  The loop over the entities of one device, as it occurs for the main device and for
  each child:
\<close>

definition add_device_entities ::
  "RegistryEntry list \<Rightarrow> string \<Rightarrow> (string \<times> RegistryEntry) list
     \<Rightarrow> (string \<times> RegistryEntry) list" where
  "add_device_entities registry dev acc =
     fold (\<lambda>entity acc'.
             if device_id entity = Some dev \<and> disabled_by entity = None
             then AList.update (entity_id entity) entity acc' else acc')
          registry acc"

text \<open>\<^verbatim>\<open>sum(1 for e in ... if e.device_id == device.id and not e.disabled_by)\<close>\<close>

definition enabled_count :: "RegistryEntry list \<Rightarrow> string \<Rightarrow> int" where
  "enabled_count registry dev =
     sum_list (map (\<lambda>e. 1)
       (filter (\<lambda>e. device_id e = Some dev \<and> disabled_by e = None) registry))"

text \<open>
  The body of the loop over the devices: a device whose parent is the main device adds
  its enabled entities, under the guard \<^verbatim>\<open>enabled_count > 0\<close>.
\<close>

definition add_child_entities ::
  "HomeAssistant \<Rightarrow> string \<Rightarrow> DeviceEntry \<Rightarrow> (string \<times> RegistryEntry) list
     \<Rightarrow> (string \<times> RegistryEntry) list" where
  "add_child_entities hass dev device acc =
     (if via_device_id device = Some dev
      then (if enabled_count (entities hass) (id' device) > 0
            then add_device_entities (entities hass) (id' device) acc else acc)
      else acc)"

definition collect_device_entities ::
  "HomeAssistant \<Rightarrow> string \<Rightarrow> (string \<times> RegistryEntry) list" where
  "collect_device_entities hass dev =
     fold (add_child_entities hass dev) (devices hass)
       (add_device_entities (entities hass) dev [])"

text \<open>
  The constructor; \<open>data\<close> is \<^verbatim>\<open>config_entry.data\<close>, and a missing key raises.
\<close>

definition init :: "HomeAssistant \<Rightarrow> (string \<rightharpoonup> string) \<Rightarrow> py_error + HuaweiInverter" where
  "init hass data =
     (case data ''device_id'' of
        None \<Rightarrow> Inl KeyError
      | Some dev \<Rightarrow>
          Inr \<lparr>self_device_id = dev, all_entities = collect_device_entities hass dev,
               voltage = None\<rparr>)"

subsection \<open>\<^verbatim>\<open>find_entity_state\<close>\<close>

text \<open>\<^verbatim>\<open>str.endswith\<close> with one string argument.\<close>

definition endswith :: "string \<Rightarrow> string \<Rightarrow> bool" where
  "endswith s suf \<longleftrightarrow>
     length suf \<le> length s \<and> drop (length s - length suf) s = suf"

text \<open>
  The loop \<^verbatim>\<open>for full_entity_id in self.all_entities\<close>, which returns from the method
  at the first key that ends with the name. The method's parameter \<^verbatim>\<open>entity_id\<close> is
  written \<open>name\<close>, the entity record owning the other name.
\<close>

fun find_entity_state_loop ::
  "(string \<rightharpoonup> State) \<Rightarrow> string list \<Rightarrow> string \<Rightarrow> State option" where
  "find_entity_state_loop st [] name = None"
| "find_entity_state_loop st (full_entity_id # rest) name =
     (if endswith full_entity_id name then st full_entity_id
      else find_entity_state_loop st rest name)"

definition find_entity_state ::
  "'a HuaweiInverter_scheme \<Rightarrow> HomeAssistant \<Rightarrow> string \<Rightarrow> State option" where
  "find_entity_state self hass name =
     (if name = ''inverter_power_derating''
      then states hass ''number.inverter_power_derating''
      else find_entity_state_loop (states hass) (map fst (all_entities self)) name)"

subsection \<open>Typed extraction\<close>

text \<open>
  In each helper a state object is truthy, so \<^verbatim>\<open>if state and ...\<close> fails only for
  \<^verbatim>\<open>None\<close>; the \<^verbatim>\<open>try\<close> block catches \<^verbatim>\<open>ValueError\<close> and nothing else. The
  parameter \<^verbatim>\<open>default\<close> is written \<open>default'\<close>. The three texts that stand for
  "no data" are the tuple of the \<^verbatim>\<open>not in\<close> test; \<^verbatim>\<open>get_state_text\<close> adds \<^verbatim>\<open>None\<close>
  to it, which no text equals, and its \<^verbatim>\<open>str(state.state)\<close> is the text itself.
\<close>

definition no_data :: "string list" where
  "no_data = [''unknown'', ''unavailable'', []]"

definition get_state_float ::
  "'a HuaweiInverter_scheme \<Rightarrow> HomeAssistant \<Rightarrow> string \<Rightarrow> pyfloat \<Rightarrow> pyfloat" where
  "get_state_float self hass name default' =
     (case find_entity_state self hass name of
        None \<Rightarrow> default'
      | Some st \<Rightarrow>
          if state st \<notin> set no_data
          then (case float_of_str (state st) of Some x \<Rightarrow> x | None \<Rightarrow> default')
          else default')"

definition get_state_int ::
  "'a HuaweiInverter_scheme \<Rightarrow> HomeAssistant \<Rightarrow> string \<Rightarrow> int \<Rightarrow> py_error + int" where
  "get_state_int self hass name default' =
     (case find_entity_state self hass name of
        None \<Rightarrow> Inr default'
      | Some st \<Rightarrow>
          if state st \<notin> set no_data
          then (case float_of_str (state st) of
                  None \<Rightarrow> Inr default'
                | Some x \<Rightarrow>
                    (case int_of_float x of
                       Inr n \<Rightarrow> Inr n
                     | Inl err \<Rightarrow> if err = ValueError then Inr default' else Inl err))
          else Inr default')"

definition get_state_text ::
  "'a HuaweiInverter_scheme \<Rightarrow> HomeAssistant \<Rightarrow> string \<Rightarrow> string \<Rightarrow> string" where
  "get_state_text self hass name default' =
     (case find_entity_state self hass name of
        None \<Rightarrow> default'
      | Some st \<Rightarrow> if state st \<notin> set no_data then state st else default')"

subsection \<open>\<^verbatim>\<open>get_energy_data\<close> and \<^verbatim>\<open>get_metrics_data\<close>\<close>

text \<open>
  \<^verbatim>\<open>get_energy_data\<close> assigns \<^verbatim>\<open>self.voltage\<close>, so it returns the adapter with the
  record.
\<close>

definition get_energy_data ::
  "'a HuaweiInverter_scheme \<Rightarrow> HomeAssistant \<Rightarrow> EnergyData \<times> 'a HuaweiInverter_scheme" where
  "get_energy_data self hass =
     (let power =
            [f_mul (get_state_float self hass ''power_meter_phase_a_active_power'' float_zero)
               minus_one,
             f_mul (get_state_float self hass ''power_meter_phase_b_active_power'' float_zero)
               minus_one,
             f_mul (get_state_float self hass ''power_meter_phase_c_active_power'' float_zero)
               minus_one];
          today = 0;
          total = f_mul (get_state_float self hass ''power_meter_consumption'' float_zero)
                    minus_one;
          voltage' =
            [get_state_float self hass ''power_meter_phase_a_voltage'' float_zero,
             get_state_float self hass ''power_meter_phase_b_voltage'' float_zero,
             get_state_float self hass ''power_meter_phase_c_voltage'' float_zero];
          self' = self\<lparr>voltage := Some voltage'\<rparr>;
          current =
            [get_state_float self' hass ''power_meter_phase_a_current'' float_zero,
             get_state_float self' hass ''power_meter_phase_b_current'' float_zero,
             get_state_float self' hass ''power_meter_phase_c_current'' float_zero];
          frequency = get_state_float self' hass ''power_meter_frequency'' float_zero
      in (\<lparr>Power = power, Today = today, Total = total, Current = current,
           Voltage = voltage', Frequency = frequency\<rparr>,
          self'))"

text \<open>
  \<^verbatim>\<open>get_metrics_data\<close> assigns no attribute. Its one call that can raise is
  \<^verbatim>\<open>get_state_int("state_of_capacity")\<close>; the calls before it have no effect, and the
  record is built only when it returns.
\<close>

definition get_metrics_data ::
  "'a HuaweiInverter_scheme \<Rightarrow> HomeAssistant \<Rightarrow> py_error + MetricsData" where
  "get_metrics_data self hass =
     (let pv_voltage_1 = get_state_float self hass ''pv_1_voltage'' float_zero;
          pv_current_1 = get_state_float self hass ''pv_1_current'' float_zero;
          pv_voltage_2 = get_state_float self hass ''pv_2_voltage'' float_zero;
          pv_current_2 = get_state_float self hass ''pv_2_current'' float_zero;
          pv_power = [f_mul pv_voltage_1 pv_current_1, f_mul pv_voltage_2 pv_current_2];
          pv_voltage = [pv_voltage_1, pv_voltage_2];
          pv_current = [pv_current_1, pv_current_2];
          inverter_active_power = get_state_float self hass ''active_power'' float_zero;
          power_meter_active_power =
            get_state_float self hass ''power_meter_active_power'' float_zero;
          load_power_total = f_sub inverter_active_power power_meter_active_power;
          load_power = [load_power_total];
          load_current = [float_zero, float_zero, float_zero];
          battery_power = [get_state_float self hass ''charge_discharge_power'' float_zero];
          battery_current = [get_state_float self hass ''bus_current'' float_zero];
          battery_voltage = [get_state_float self hass ''bus_voltage'' float_zero]
      in case get_state_int self hass ''state_of_capacity'' 0 of
           Inl err \<Rightarrow> Inl err
         | Inr battery_soc \<Rightarrow>
             (let battery_temperature =
                    [get_state_float self hass ''battery_1_bms_temperature'' float_zero];
                  inverter_status = 2;
                  inverter_temperature =
                    get_state_float self hass ''internal_temperature'' float_zero;
                  alarm_codes = [0, 0, 0, 0, 0, 0];
                  grid_export_limit =
                    get_state_float self hass ''inverter_power_derating'' float_zero
              in Inr \<lparr>PvPower = pv_power, PvVoltage = pv_voltage, PvCurrent = pv_current,
                      LoadPower = load_power, AlarmCodes = alarm_codes,
                      BatterySOC = battery_soc, LoadCurrent = load_current,
                      BatteryPower = battery_power, BatteryCurrent = battery_current,
                      BatteryVoltage = battery_voltage, InverterStatus = inverter_status,
                      GridExportLimit = grid_export_limit,
                      BatteryTemperature = battery_temperature,
                      InverterTemperature = inverter_temperature\<rparr>))"

section \<open>The specification's side\<close>

text \<open>
  The Collected Entity Set in the specification's words: the enabled entities of the
  root device, and the enabled entities of every device whose parent is the root device,
  but only if that child device has at least one enabled entity.
\<close>

definition spec_collected :: "HomeAssistant \<Rightarrow> string \<Rightarrow> RegistryEntry set" where
  "spec_collected hass dev =
     {e \<in> set (entities hass). disabled_by e = None \<and>
        (device_id e = Some dev \<or>
         (\<exists>d \<in> set (devices hass). via_device_id d = Some dev \<and>
            (\<exists>e' \<in> set (entities hass). device_id e' = Some (id' d) \<and> disabled_by e' = None) \<and>
            device_id e = Some (id' d)))}"

text \<open>
  A float of the model is a binary64 value when its magnitude is not negative and
  rounding returns it unchanged.
\<close>

definition is_double :: "pyfloat \<Rightarrow> bool" where
  "is_double x =
     (case x of Finite s q \<Rightarrow> 0 \<le> q \<and> round_double s q = Finite s q | Inf s \<Rightarrow> True
      | NaN \<Rightarrow> True)"

text \<open>
  The invariant of the dictionary while it is built: keys are distinct, and every key is
  the identifier of the registry entity stored under it.
\<close>

definition entries_ok :: "RegistryEntry list \<Rightarrow> (string \<times> RegistryEntry) list \<Rightarrow> bool" where
  "entries_ok registry acc \<longleftrightarrow>
     distinct (map fst acc) \<and> (\<forall>(k, e) \<in> set acc. k = entity_id e \<and> e \<in> set registry)"

section \<open>Example installations\<close>

definition sensor :: "string \<Rightarrow> string \<Rightarrow> RegistryEntry" where
  "sensor eid dev = \<lparr>entity_id = eid, device_id = Some dev, disabled_by = None\<rparr>"

text \<open>
  An inverter \<^verbatim>\<open>inv\<close> with a power meter attached to it, a battery whose only entity is
  disabled, and a device that is not attached to the inverter.
\<close>

definition example_hass :: HomeAssistant where
  "example_hass =
     \<lparr>entities =
        [sensor ''sensor.inverter_active_power'' ''inv'',
         sensor ''sensor.inverter_pv_1_voltage'' ''inv'',
         sensor ''sensor.inverter_pv_1_current'' ''inv'',
         sensor ''sensor.inverter_pv_2_voltage'' ''inv'',
         sensor ''sensor.inverter_pv_2_current'' ''inv'',
         (sensor ''sensor.inverter_daily_yield'' ''inv'')\<lparr>disabled_by := Some USER\<rparr>,
         sensor ''sensor.power_meter_active_power'' ''meter'',
         sensor ''sensor.power_meter_phase_a_active_power'' ''meter'',
         sensor ''sensor.power_meter_phase_b_active_power'' ''meter'',
         sensor ''sensor.power_meter_phase_c_active_power'' ''meter'',
         sensor ''sensor.power_meter_consumption'' ''meter'',
         (sensor ''sensor.battery_state_of_capacity'' ''battery'')
           \<lparr>disabled_by := Some INTEGRATION\<rparr>,
         sensor ''sensor.other_active_power'' ''other''],
      devices =
        [\<lparr>id' = ''inv'', via_device_id = None\<rparr>,
         \<lparr>id' = ''meter'', via_device_id = Some ''inv''\<rparr>,
         \<lparr>id' = ''battery'', via_device_id = Some ''inv''\<rparr>,
         \<lparr>id' = ''other'', via_device_id = None\<rparr>],
      states =
        [''sensor.inverter_active_power'' \<mapsto> \<lparr>state = ''5000''\<rparr>,
         ''sensor.inverter_pv_1_voltage'' \<mapsto> \<lparr>state = ''40''\<rparr>,
         ''sensor.inverter_pv_1_current'' \<mapsto> \<lparr>state = ''5''\<rparr>,
         ''sensor.inverter_pv_2_voltage'' \<mapsto> \<lparr>state = ''0''\<rparr>,
         ''sensor.inverter_pv_2_current'' \<mapsto> \<lparr>state = ''0''\<rparr>,
         ''sensor.power_meter_active_power'' \<mapsto> \<lparr>state = ''-1200''\<rparr>,
         ''sensor.power_meter_phase_a_active_power'' \<mapsto> \<lparr>state = ''100''\<rparr>,
         ''sensor.power_meter_phase_b_active_power'' \<mapsto> \<lparr>state = ''200''\<rparr>,
         ''sensor.power_meter_phase_c_active_power'' \<mapsto> \<lparr>state = ''300''\<rparr>,
         ''sensor.power_meter_consumption'' \<mapsto> \<lparr>state = ''1500.5''\<rparr>,
         ''sensor.other_active_power'' \<mapsto> \<lparr>state = ''999''\<rparr>]\<rparr>"

definition example_all_entities :: "(string \<times> RegistryEntry) list" where
  "example_all_entities =
     map (\<lambda>k. (k, sensor k ''inv''))
       [''sensor.inverter_active_power'', ''sensor.inverter_pv_1_voltage'',
        ''sensor.inverter_pv_1_current'', ''sensor.inverter_pv_2_voltage'',
        ''sensor.inverter_pv_2_current''] @
     map (\<lambda>k. (k, sensor k ''meter''))
       [''sensor.power_meter_active_power'', ''sensor.power_meter_phase_a_active_power'',
        ''sensor.power_meter_phase_b_active_power'',
        ''sensor.power_meter_phase_c_active_power'', ''sensor.power_meter_consumption'']"

definition example_inverter :: HuaweiInverter where
  "example_inverter =
     \<lparr>self_device_id = ''inv'', all_entities = example_all_entities, voltage = None\<rparr>"

text \<open>
  The same installation with the battery's state of capacity collected and reporting the
  text \<^verbatim>\<open>inf\<close>.
\<close>

definition overflow_inverter :: HuaweiInverter where
  "overflow_inverter =
     example_inverter\<lparr>all_entities :=
       example_all_entities @
       [(''sensor.battery_state_of_capacity'',
         sensor ''sensor.battery_state_of_capacity'' ''battery'')]\<rparr>"

definition overflow_hass :: HomeAssistant where
  "overflow_hass =
     example_hass\<lparr>states :=
       (states example_hass)(''sensor.battery_state_of_capacity'' \<mapsto> \<lparr>state = ''inf''\<rparr>)\<rparr>"

text \<open>
  An adapter with a single collected entity \<^verbatim>\<open>sensor.x\<close>, and the platform in which
  that entity's state is a given text.
\<close>

definition one_sensor_inverter :: HuaweiInverter where
  "one_sensor_inverter =
     \<lparr>self_device_id = ''inv'', all_entities = [(''sensor.x'', sensor ''sensor.x'' ''inv'')],
      voltage = None\<rparr>"

definition one_sensor_hass :: "string \<Rightarrow> HomeAssistant" where
  "one_sensor_hass text =
     \<lparr>entities = [sensor ''sensor.x'' ''inv''],
      devices = [\<lparr>id' = ''inv'', via_device_id = None\<rparr>],
      states = [''sensor.x'' \<mapsto> \<lparr>state = text\<rparr>]\<rparr>"

text \<open>
  Two collected entities whose identifiers both end with
  \<^verbatim>\<open>power_meter_phase_a_active_power\<close>; in \<open>late_hass\<close> only the second has a state.
\<close>

definition two_sensor_inverter :: HuaweiInverter where
  "two_sensor_inverter =
     \<lparr>self_device_id = ''inv'',
      all_entities =
        [(''sensor.huawei_inverter_power_meter_phase_a_active_power'',
          sensor ''sensor.huawei_inverter_power_meter_phase_a_active_power'' ''inv''),
         (''sensor.other_power_meter_phase_a_active_power'',
          sensor ''sensor.other_power_meter_phase_a_active_power'' ''inv'')],
      voltage = None\<rparr>"

definition two_sensor_hass :: HomeAssistant where
  "two_sensor_hass =
     \<lparr>entities = [], devices = [],
      states =
        [''sensor.huawei_inverter_power_meter_phase_a_active_power'' \<mapsto> \<lparr>state = ''100''\<rparr>,
         ''sensor.other_power_meter_phase_a_active_power'' \<mapsto> \<lparr>state = ''7''\<rparr>]\<rparr>"

definition late_hass :: HomeAssistant where
  "late_hass =
     \<lparr>entities = [], devices = [],
      states = [''sensor.other_power_meter_phase_a_active_power'' \<mapsto> \<lparr>state = ''7''\<rparr>]\<rparr>"

section \<open>Floating point\<close>

lemma round_half_even_of_int: "round_half_even (of_int j) = j"
  by (simp add: round_half_even_def)

lemma round_half_even_nonneg: "0 \<le> x \<Longrightarrow> 0 \<le> round_half_even x"
  by (auto simp: round_half_even_def Let_def)

lemma round_half_even_le: "x \<le> of_int n \<Longrightarrow> round_half_even x \<le> n"
proof -
  assume le: "x \<le> of_int n"
  have f: "of_int \<lfloor>x\<rfloor> \<le> x"
    by simp
  show ?thesis
  proof (cases "x - of_int \<lfloor>x\<rfloor> < 1 / 2")
    case True
    then have "round_half_even x = \<lfloor>x\<rfloor>"
      by (simp add: round_half_even_def)
    moreover have "\<lfloor>x\<rfloor> \<le> n"
      using le by (simp add: floor_le_iff)
    ultimately show ?thesis by simp
  next
    case False
    then have "of_int \<lfloor>x\<rfloor> < x"
      by simp
    then have "(of_int \<lfloor>x\<rfloor> :: rat) < of_int n"
      using le by linarith
    then have "\<lfloor>x\<rfloor> + 1 \<le> n"
      by simp
    moreover have "round_half_even x \<le> \<lfloor>x\<rfloor> + 1"
      by (simp add: round_half_even_def Let_def)
    ultimately show ?thesis by simp
  qed
qed

lemma flog2_bounds:
  assumes "0 < q"
  shows "2 powi (flog2 q) \<le> q" and "q < 2 powi (flog2 q + 1)"
proof -
  have "2 powi (flog2 q) \<le> q \<and> q < 2 powi (flog2 q + 1)"
  proof (cases "1 \<le> q")
    case True
    define n where "n = \<lfloor>q\<rfloor>"
    have n: "0 < n"
      using True by (simp add: n_def)
    have b: "1 \<le> bitlen n"
      using n by (simp add: bitlen_alt_def)
    have fl: "flog2 q = bitlen n - 1"
      using True by (simp add: flog2_def n_def)
    from bitlen_bounds [OF n] have lo: "2 ^ nat (bitlen n - 1) \<le> n" and hi: "n < 2 ^ nat (bitlen n)"
      by simp_all
    have "(2::rat) powi (bitlen n - 1) = of_int (2 ^ nat (bitlen n - 1))"
      using b by (simp add: power_int_nonneg_exp)
    also have "\<dots> \<le> of_int n"
      using lo by (simp only: of_int_le_iff)
    also have "\<dots> \<le> q"
      by (simp add: n_def)
    finally have 1: "2 powi (flog2 q) \<le> q"
      by (simp add: fl)
    have "n + 1 \<le> 2 ^ nat (bitlen n)"
      using hi by simp
    then have "(of_int (n + 1) :: rat) \<le> of_int (2 ^ nat (bitlen n))"
      by (simp only: of_int_le_iff)
    moreover have "q < of_int (n + 1)"
      using floor_correct [of q] by (simp add: n_def)
    ultimately have "q < of_int (2 ^ nat (bitlen n))"
      by linarith
    also have "\<dots> = 2 powi (bitlen n)"
      using b by (simp add: power_int_nonneg_exp)
    finally have 2: "q < 2 powi (flog2 q + 1)"
      by (simp add: fl)
    from 1 2 show ?thesis ..
  next
    case False
    define r where "r = 1 / q"
    define m where "m = \<lceil>r\<rceil> - 1"
    have r: "1 < r"
      using False assms by (simp add: r_def)
    have m: "0 < m"
      using r by (simp add: m_def less_ceiling_iff)
    have b: "1 \<le> bitlen m"
      using m by (simp add: bitlen_alt_def)
    have fl: "flog2 q = - bitlen m"
      using False by (simp add: flog2_def m_def r_def)
    from bitlen_bounds [OF m] have lo: "2 ^ nat (bitlen m - 1) \<le> m" and hi: "m < 2 ^ nat (bitlen m)"
      by simp_all
    have mr: "of_int m < r"
      by (simp add: m_def) linarith
    have rm: "r \<le> of_int (m + 1)"
      by (simp add: m_def)
    have "m + 1 \<le> 2 ^ nat (bitlen m)"
      using hi by simp
    then have "(of_int (m + 1) :: rat) \<le> of_int (2 ^ nat (bitlen m))"
      by (simp only: of_int_le_iff)
    then have "r \<le> of_int (2 ^ nat (bitlen m))"
      using rm by linarith
    also have "\<dots> = 2 powi (bitlen m)"
      using b by (simp add: power_int_nonneg_exp)
    finally have "1 / q \<le> 2 powi (bitlen m)"
      by (simp add: r_def)
    then have 1: "2 powi (flog2 q) \<le> q"
      using assms by (simp add: fl power_int_minus field_simps)
    have "(2::rat) powi (bitlen m - 1) = of_int (2 ^ nat (bitlen m - 1))"
      using b by (simp add: power_int_nonneg_exp)
    also have "\<dots> \<le> of_int m"
      using lo by (simp only: of_int_le_iff)
    also have "\<dots> < r"
      by (rule mr)
    finally have "2 powi (bitlen m - 1) < 1 / q"
      by (simp add: r_def)
    then have "q < 1 / 2 powi (bitlen m - 1)"
      using assms by (simp add: field_simps)
    also have "\<dots> = 2 powi (- bitlen m + 1)"
      by (simp add: power_int_minus_divide [symmetric])
    finally have 2: "q < 2 powi (flog2 q + 1)"
      by (simp add: fl)
    from 1 2 show ?thesis ..
  qed
  then show "2 powi (flog2 q) \<le> q" and "q < 2 powi (flog2 q + 1)"
    by simp_all
qed


lemma flog2_less:
  assumes "0 < q" and "q < 2 powi k"
  shows "flog2 q < k"
proof (rule ccontr)
  assume "\<not> flog2 q < k"
  then have "(2::rat) powi k \<le> 2 powi (flog2 q)"
    by (intro power_int_increasing) auto
  with flog2_bounds(1) [OF assms(1)] assms(2) show False
    by linarith
qed

lemma flog2_le:
  assumes "0 < q" and "q \<le> 2 powi k"
  shows "flog2 q \<le> k"
proof -
  have "(2::rat) powi k < 2 powi (k + 1)"
    by (intro power_int_strict_increasing) auto
  with assms(2) have "q < 2 powi (k + 1)"
    by linarith
  from flog2_less [OF assms(1) this] show ?thesis
    by simp
qed

text \<open>The value a rounding returns is a fixed point of the rounding.\<close>

lemma round_double_idem:
  assumes "0 \<le> q" and "round_double s q = Finite s' r"
  shows "0 \<le> r \<and> round_double s' r = Finite s' r"
proof (cases "q = 0")
  case True
  with assms(2) show ?thesis
    by (simp add: round_double_def)
next
  case False
  with assms(1) have q: "0 < q"
    by simp
  define e where "e = ulp_exponent q"
  define m where "m = round_half_even (q / 2 powi e)"
  have r: "r = of_int m * 2 powi e" and s': "s' = s" and fin: "r < 2 ^ 1024"
    using assms(2) False
    by (auto simp: round_double_def Let_def e_def m_def split: if_splits)
  have e_lo: "- 1074 \<le> e" and e_fl: "flog2 q - 52 \<le> e"
    by (simp_all add: e_def ulp_exponent_def)
  have m0: "0 \<le> m"
    unfolding m_def using q by (intro round_half_even_nonneg) simp
  have "q < 2 powi (flog2 q + 1)"
    by (rule flog2_bounds(2) [OF q])
  also have "\<dots> \<le> 2 powi (e + 53)"
    using e_fl by (intro power_int_increasing) auto
  also have "\<dots> = 2 powi e * 2 ^ 53"
    by (simp add: power_int_add)
  finally have "q / 2 powi e < 2 ^ 53"
    by (simp add: field_simps)
  then have "q / 2 powi e \<le> of_int (2 ^ 53)"
    by simp
  then have m53: "m \<le> 2 ^ 53"
    unfolding m_def by (rule round_half_even_le)
  have r0: "0 \<le> r"
    using m0 by (simp add: r)
  show ?thesis
  proof (cases "m = 0")
    case True
    then show ?thesis
      by (simp add: r round_double_def)
  next
    case False
    with m0 have m1: "1 \<le> m"
      by simp
    have rpos: "0 < r"
      using m1 by (simp add: r)
    define e' where "e' = ulp_exponent r"
    have e'_def2: "e' = max (flog2 r - 52) (- 1074)"
      by (simp add: e'_def ulp_exponent_def)
    have "\<exists>j. r / 2 powi e' = of_int j"
    proof (cases "m = 2 ^ 53")
      case True
      have "r = 2 powi (e + 53)"
        by (simp add: r True power_int_add)
      then have "flog2 r \<le> e + 53"
        using flog2_le [OF rpos, of "e + 53"] by simp
      then have d: "0 \<le> e + 53 - e'"
        using e_lo by (simp add: e'_def2)
      have "r / 2 powi e' = 2 powi (e + 53 - e')"
        by (simp add: \<open>r = 2 powi (e + 53)\<close> power_int_diff)
      also have "\<dots> = of_int (2 ^ nat (e + 53 - e'))"
        using d by (simp add: power_int_nonneg_exp)
      finally show ?thesis ..
    next
      case False
      with m53 have "m < 2 ^ 53"
        by simp
      then have "(of_int m :: rat) < 2 ^ 53"
        by (metis of_int_less_iff of_int_numeral of_int_power)
      then have "r < 2 ^ 53 * 2 powi e"
        by (simp add: r)
      also have "\<dots> = 2 powi (e + 53)"
        by (simp add: power_int_add)
      finally have "flog2 r < e + 53"
        by (rule flog2_less [OF rpos])
      then have d: "0 \<le> e - e'"
        using e_lo by (simp add: e'_def2)
      have "r / 2 powi e' = of_int m * 2 powi (e - e')"
        by (simp add: r power_int_diff)
      also have "\<dots> = of_int (m * 2 ^ nat (e - e'))"
        using d by (simp add: power_int_nonneg_exp)
      finally show ?thesis ..
    qed
    then obtain j where j: "r / 2 powi e' = of_int j"
      ..
    have "of_int (round_half_even (r / 2 powi e')) * 2 powi e' = r / 2 powi e' * 2 powi e'"
      unfolding j round_half_even_of_int ..
    then have "of_int (round_half_even (r / 2 powi e')) * 2 powi e' = r"
      by simp
    then show ?thesis
      using rpos fin r0 by (simp add: round_double_def Let_def flip: e'_def)
  qed
qed

lemma round_double_is_double: "0 \<le> q \<Longrightarrow> is_double (round_double s q)"
proof (cases "round_double s q")
  case (Finite s' r)
  assume "0 \<le> q"
  from round_double_idem [OF this Finite] show ?thesis
    by (simp add: is_double_def Finite)
qed (simp_all add: is_double_def)

lemma parse_decimal_is_double: "parse_decimal t = Some (x, rest) \<Longrightarrow> is_double x"
  by (auto simp: parse_decimal_def Let_def round_double_is_double
      split: prod.splits if_splits)

lemma parse_inf_or_nan_is_double: "parse_inf_or_nan t = Some (x, rest) \<Longrightarrow> is_double x"
  by (auto simp: parse_inf_or_nan_def is_double_def split: prod.splits if_splits)

lemma float_of_str_is_double: "float_of_str t = Some x \<Longrightarrow> is_double x"
  by (auto simp: float_of_str_def Let_def
      dest: parse_decimal_is_double parse_inf_or_nan_is_double
      split: option.splits if_splits)

text \<open>Multiplying a binary64 value by \<^verbatim>\<open>-1\<close> changes its sign and nothing else.\<close>

lemma round_double_sign:
  "round_double s q = Finite s' r \<Longrightarrow> round_double t q = Finite t r"
  by (auto simp: round_double_def Let_def split: if_splits)

lemma f_mul_minus_one: "is_double x \<Longrightarrow> f_mul x minus_one = f_neg x"
proof (cases x)
  case (Finite s q)
  assume "is_double x"
  then have "round_double s q = Finite s q"
    by (simp add: is_double_def Finite)
  then have "round_double (\<not> s) q = Finite (\<not> s) q"
    by (rule round_double_sign)
  then show ?thesis
    by (simp add: Finite minus_one_def)
qed (simp_all add: minus_one_def)

lemma is_double_float_zero: "is_double float_zero"
  by (simp add: is_double_def float_zero_def round_double_def)

subsection \<open>Evaluation\<close>

lemma floor_rat_numeral: "\<lfloor>numeral a / numeral b :: rat\<rfloor> = numeral a div numeral b"
  by (metis floor_divide_of_int_eq of_int_numeral)

lemma ceiling_rat_numeral: "\<lceil>numeral a / numeral b :: rat\<rceil> = - (- numeral a div numeral b)"
  by (metis ceiling_def floor_divide_of_int_eq minus_divide_left of_int_minus of_int_numeral)

lemmas float_eval = round_double_def ulp_exponent_def flog2_def round_half_even_def Let_def
  compute_bitlen floor_rat_numeral ceiling_rat_numeral

lemmas parse_eval = float_of_str_def strip_space_def parse_decimal_def parse_inf_or_nan_def
  parse_exponent_def parse_sign_def digits_value_def ci_match_def is_digit_def is_space_def
  to_lower_def

lemma parse_examples:
  "float_of_str ''N/A'' = None"
  "float_of_str ''unknown'' = None"
  "float_of_str ''inf'' = Some (Inf False)"
  "float_of_str ''12.7'' = Some (round_double False (127 / 10))"
  "float_of_str ''-12.7'' = Some (round_double True (127 / 10))"
  "float_of_str ''12.0'' = Some (round_double False 12)"
  "float_of_str ''0'' = Some (Finite False 0)"
  "float_of_str ''5'' = Some (round_double False 5)"
  "float_of_str ''40'' = Some (round_double False 40)"
  "float_of_str ''100'' = Some (round_double False 100)"
  "float_of_str ''200'' = Some (round_double False 200)"
  "float_of_str ''300'' = Some (round_double False 300)"
  "float_of_str ''5000'' = Some (round_double False 5000)"
  "float_of_str ''-1200'' = Some (round_double True 1200)"
  "float_of_str ''1500.5'' = Some (round_double False (3001 / 2))"
  by (simp_all add: parse_eval round_double_def)

lemma round_examples:
  "round_double s 0 = Finite s 0"
  "round_double s (127 / 10) = Finite s (3574732204225331 / 281474976710656)"
  "round_double s 12 = Finite s 12"
  "round_double s 5 = Finite s 5"
  "round_double s 40 = Finite s 40"
  "round_double s 100 = Finite s 100"
  "round_double s 200 = Finite s 200"
  "round_double s 300 = Finite s 300"
  "round_double s 5000 = Finite s 5000"
  "round_double s 1200 = Finite s 1200"
  "round_double s 6200 = Finite s 6200"
  "round_double s (3001 / 2) = Finite s (3001 / 2)"
  by (simp_all add: float_eval)

lemmas float_examples = parse_examples [unfolded round_examples]

section \<open>The collected entity set\<close>

lemma set_update_distinct:
  "distinct (map fst al) \<Longrightarrow>
     set (AList.update k v al) = insert (k, v) {(x, y) \<in> set al. x \<noteq> k}"
  by (induction al) (auto simp: rev_image_eqI)

lemma update_entry:
  assumes inj: "inj_on entity_id (set registry)" and ok: "entries_ok registry acc"
    and e: "e \<in> set registry"
  shows "set (AList.update (entity_id e) e acc) = insert (entity_id e, e) (set acc)"
    and "entries_ok registry (AList.update (entity_id e) e acc)"
proof -
  have d: "distinct (map fst acc)"
    using ok by (simp add: entries_ok_def)
  have same: "y = e" if "(entity_id e, y) \<in> set acc" for y
    using that ok inj e by (auto simp: entries_ok_def inj_on_def)
  show s: "set (AList.update (entity_id e) e acc) = insert (entity_id e, e) (set acc)"
    unfolding set_update_distinct [OF d] using same by auto
  show "entries_ok registry (AList.update (entity_id e) e acc)"
    unfolding entries_ok_def s using ok e by (auto simp: entries_ok_def distinct_update)
qed

lemma add_device_entities_set:
  assumes inj: "inj_on entity_id (set registry)"
  shows "entries_ok registry acc \<Longrightarrow> set es \<subseteq> set registry \<Longrightarrow>
     set (add_device_entities es dev acc) =
       set acc \<union> (\<lambda>e. (entity_id e, e)) ` {e \<in> set es. device_id e = Some dev \<and> disabled_by e = None}
     \<and> entries_ok registry (add_device_entities es dev acc)"
proof (induction es arbitrary: acc)
  case Nil
  then show ?case by (simp add: add_device_entities_def)
next
  case (Cons e es)
  show ?case
  proof (cases "device_id e = Some dev \<and> disabled_by e = None")
    case True
    have e: "e \<in> set registry" using Cons.prems by simp
    note u = update_entry [OF inj Cons.prems(1) e]
    have step: "add_device_entities (e # es) dev acc
                  = add_device_entities es dev (AList.update (entity_id e) e acc)"
      using True by (simp add: add_device_entities_def)
    from Cons.IH [OF u(2)] Cons.prems(2) True show ?thesis
      unfolding step u(1) by auto
  next
    case False
    have step: "add_device_entities (e # es) dev acc = add_device_entities es dev acc"
      using False by (auto simp add: add_device_entities_def)
    from Cons.IH [OF Cons.prems(1)] Cons.prems(2) False show ?thesis
      unfolding step by auto
  qed
qed

lemma enabled_count_pos:
  "enabled_count registry dev > 0 \<longleftrightarrow>
     (\<exists>e \<in> set registry. device_id e = Some dev \<and> disabled_by e = None)"
proof -
  have "sum_list (map (\<lambda>e. 1::int) xs) = int (length xs)" for xs :: "RegistryEntry list"
    by (induction xs) auto
  then have "enabled_count registry dev
      = int (length (filter (\<lambda>e. device_id e = Some dev \<and> disabled_by e = None) registry))"
    by (simp add: enabled_count_def)
  then show ?thesis
    by (auto simp: filter_empty_conv)
qed

lemma children_set:
  assumes inj: "inj_on entity_id (set (entities hass))"
  shows "entries_ok (entities hass) acc \<Longrightarrow>
     set (fold (add_child_entities hass dev) ds acc) =
       set acc \<union> (\<lambda>e. (entity_id e, e)) `
         {e \<in> set (entities hass). disabled_by e = None \<and>
            (\<exists>d \<in> set ds. via_device_id d = Some dev \<and> device_id e = Some (id' d))}
     \<and> entries_ok (entities hass) (fold (add_child_entities hass dev) ds acc)"
proof (induction ds arbitrary: acc)
  case Nil
  then show ?case by simp
next
  case (Cons d ds)
  let ?acc' = "add_child_entities hass dev d acc"
  have one: "set ?acc' = set acc \<union> (\<lambda>e. (entity_id e, e)) `
         {e \<in> set (entities hass). disabled_by e = None \<and>
            via_device_id d = Some dev \<and> device_id e = Some (id' d)}
      \<and> entries_ok (entities hass) ?acc'"
  proof (cases "via_device_id d = Some dev \<and> enabled_count (entities hass) (id' d) > 0")
    case True
    then show ?thesis
      using add_device_entities_set [OF inj Cons.prems subset_refl, of "id' d"]
      by (auto simp: add_child_entities_def)
  next
    case False
    then have same: "?acc' = acc"
      by (auto simp: add_child_entities_def)
    have emp: "{e \<in> set (entities hass). disabled_by e = None \<and>
            via_device_id d = Some dev \<and> device_id e = Some (id' d)} = {}"
      using False by (auto simp: enabled_count_pos)
    show ?thesis
      unfolding same emp using Cons.prems by simp
  qed
  from Cons.IH [OF conjunct2 [OF one]] conjunct1 [OF one] show ?case
    by auto
qed

lemma collect_device_entities_set:
  assumes "distinct (map entity_id (entities hass))"
  shows "set (collect_device_entities hass dev) = (\<lambda>e. (entity_id e, e)) ` spec_collected hass dev"
    and "distinct (map fst (collect_device_entities hass dev))"
proof -
  have inj: "inj_on entity_id (set (entities hass))"
    using assms by (simp add: distinct_map)
  have ok0: "entries_ok (entities hass) []"
    by (simp add: entries_ok_def)
  note root = add_device_entities_set [OF inj ok0 subset_refl, of dev]
  note kids = children_set [OF inj conjunct2 [OF root], of dev "devices hass"]
  have "spec_collected hass dev =
      {e \<in> set (entities hass). device_id e = Some dev \<and> disabled_by e = None} \<union>
      {e \<in> set (entities hass). disabled_by e = None \<and>
            (\<exists>d \<in> set (devices hass). via_device_id d = Some dev \<and> device_id e = Some (id' d))}"
    by (auto simp: spec_collected_def)
  then show "set (collect_device_entities hass dev) = (\<lambda>e. (entity_id e, e)) ` spec_collected hass dev"
    unfolding collect_device_entities_def using conjunct1 [OF kids] conjunct1 [OF root]
    by (simp add: image_Un)
  show "distinct (map fst (collect_device_entities hass dev))"
    unfolding collect_device_entities_def using conjunct2 [OF kids]
    by (simp add: entries_ok_def)
qed

lemma collect_device_entities_no_children:
  assumes "\<forall>d \<in> set (devices hass). via_device_id d \<noteq> Some dev"
  shows "collect_device_entities hass dev = add_device_entities (entities hass) dev []"
proof -
  have "fold (add_child_entities hass dev) ds acc = acc"
    if "\<forall>d \<in> set ds. via_device_id d \<noteq> Some dev" for ds acc
    using that by (induction ds arbitrary: acc) (auto simp: add_child_entities_def)
  then show ?thesis
    unfolding collect_device_entities_def using assms by blast
qed

text \<open>The constructor stores what \<^verbatim>\<open>collect_device_entities\<close> returns for its device.\<close>

lemma init_all_entities:
  "init hass data = Inr self \<Longrightarrow>
     data ''device_id'' = Some (self_device_id self)
     \<and> all_entities self = collect_device_entities hass (self_device_id self)
     \<and> voltage self = None"
  by (auto simp: init_def split: option.splits)

lemma init_raises: "init hass data = Inl err \<longleftrightarrow> err = KeyError \<and> data ''device_id'' = None"
  by (auto simp: init_def split: option.splits)

text \<open>
  Claim C1. In a registry that holds each entity identifier once, the dictionary built
  by \<^verbatim>\<open>collect_device_entities\<close> holds, under their identifiers, exactly the enabled
  entities of the root device and of the devices whose parent is the root device, each
  once. With no child device it has as many entries as the root device has enabled
  entities, and no entry belongs to a device all of whose entities are disabled.
\<close>

theorem collect_device_entities_exact:
  assumes "distinct (map entity_id (entities hass))"
  shows "set (collect_device_entities hass dev)
           = (\<lambda>e. (entity_id e, e)) ` spec_collected hass dev
       \<and> distinct (map fst (collect_device_entities hass dev))
       \<and> ((\<forall>d \<in> set (devices hass). via_device_id d \<noteq> Some dev) \<longrightarrow>
            length (collect_device_entities hass dev)
              = length (filter (\<lambda>e. device_id e = Some dev \<and> disabled_by e = None)
                          (entities hass)))
       \<and> (\<forall>d \<in> set (devices hass).
            (\<forall>e \<in> set (entities hass). device_id e = Some (id' d) \<longrightarrow> disabled_by e \<noteq> None) \<longrightarrow>
            (\<forall>(k, e) \<in> set (collect_device_entities hass dev). device_id e \<noteq> Some (id' d)))"
proof (intro conjI)
  note s = collect_device_entities_set [OF assms, of dev]
  show "set (collect_device_entities hass dev) = (\<lambda>e. (entity_id e, e)) ` spec_collected hass dev"
    by (rule s(1))
  show "distinct (map fst (collect_device_entities hass dev))"
    by (rule s(2))
  show "\<forall>d \<in> set (devices hass).
            (\<forall>e \<in> set (entities hass). device_id e = Some (id' d) \<longrightarrow> disabled_by e \<noteq> None) \<longrightarrow>
            (\<forall>(k, e) \<in> set (collect_device_entities hass dev). device_id e \<noteq> Some (id' d))"
    unfolding s(1) by (auto simp: spec_collected_def)
  show "(\<forall>d \<in> set (devices hass). via_device_id d \<noteq> Some dev) \<longrightarrow>
            length (collect_device_entities hass dev)
              = length (filter (\<lambda>e. device_id e = Some dev \<and> disabled_by e = None)
                          (entities hass))"
  proof
    assume none: "\<forall>d \<in> set (devices hass). via_device_id d \<noteq> Some dev"
    let ?f = "filter (\<lambda>e. device_id e = Some dev \<and> disabled_by e = None) (entities hass)"
    have spec: "spec_collected hass dev = set ?f"
      using none by (auto simp: spec_collected_def)
    have "length (collect_device_entities hass dev) = card (set (collect_device_entities hass dev))"
      using s(2) by (metis distinct_card distinct_map)
    also have "\<dots> = card ((\<lambda>e. (entity_id e, e)) ` set ?f)"
      by (simp add: s(1) spec)
    also have "\<dots> = card (set ?f)"
      by (rule card_image) (simp add: inj_on_def)
    also have "\<dots> = length ?f"
    proof (rule distinct_card)
      show "distinct ?f"
        using assms by (simp add: distinct_map)
    qed
    finally show "length (collect_device_entities hass dev) = length ?f" .
  qed
qed

lemma example_collect:
  "collect_device_entities example_hass ''inv'' = example_all_entities"
  by (simp add: collect_device_entities_def add_child_entities_def add_device_entities_def
      enabled_count_def example_hass_def example_all_entities_def sensor_def)

lemma example_distinct: "distinct (map entity_id (entities example_hass))"
  by (simp add: example_hass_def sensor_def)

theorem collect_device_entities_exact_witness:
  "distinct (map entity_id (entities example_hass))
   \<and> set example_all_entities = (\<lambda>e. (entity_id e, e)) ` spec_collected example_hass ''inv''
   \<and> length (collect_device_entities (example_hass\<lparr>devices := []\<rparr>) ''inv'') = 5
   \<and> (\<exists>e \<in> set (entities example_hass). device_id e = Some ''battery'')
   \<and> ''battery'' \<notin> set (map (\<lambda>(k, e). the (device_id e)) example_all_entities)"
proof -
  have d0: "distinct (map entity_id (entities (example_hass\<lparr>devices := []\<rparr>)))"
    using example_distinct by simp
  have "set (collect_device_entities example_hass ''inv'')
          = (\<lambda>e. (entity_id e, e)) ` spec_collected example_hass ''inv''"
    using collect_device_entities_exact [OF example_distinct, of "''inv''"] by blast
  moreover have "length (collect_device_entities (example_hass\<lparr>devices := []\<rparr>) ''inv'') = 5"
    using collect_device_entities_exact [OF d0, of "''inv''"]
    by (simp add: example_hass_def sensor_def)
  moreover have "\<exists>e \<in> set (entities example_hass). device_id e = Some ''battery''"
    by (simp add: example_hass_def sensor_def)
  moreover have "''battery'' \<notin> set (map (\<lambda>(k, e). the (device_id e)) example_all_entities)"
    by (simp add: example_all_entities_def sensor_def)
  ultimately show ?thesis
    using example_distinct by (simp add: example_collect)
qed

lemma example_init: "init example_hass [''device_id'' \<mapsto> ''inv''] = Inr example_inverter"
  by (simp add: init_def example_collect example_inverter_def)

section \<open>Entity resolution\<close>

lemma endswith_suffix: "endswith s suf \<longleftrightarrow> suffix suf s"
proof
  assume "endswith s suf"
  then have "s = take (length s - length suf) s @ suf"
    by (metis append_take_drop_id endswith_def)
  then show "suffix suf s"
    by (metis suffixI)
next
  assume "suffix suf s"
  then obtain p where "s = p @ suf"
    by (auto simp: suffix_def)
  then show "endswith s suf"
    by (simp add: endswith_def)
qed

lemma find_entity_state_loop_no_match:
  "\<forall>k \<in> set keys. \<not> suffix n k \<Longrightarrow> find_entity_state_loop st keys n = None"
  by (induction keys) (auto simp: endswith_suffix)

lemma find_entity_state_loop_first_match:
  "\<forall>j \<in> set pre. \<not> suffix n j \<Longrightarrow> suffix n k \<Longrightarrow>
     find_entity_state_loop st (pre @ k # post) n = st k"
  by (induction pre) (auto simp: endswith_suffix)

text \<open>
  Claim C5. Resolving the logical name \<^verbatim>\<open>inverter_power_derating\<close> looks up the fixed
  identifier \<^verbatim>\<open>number.inverter_power_derating\<close> in the state machine, whatever the
  adapter's collected entity set holds.
\<close>

theorem find_entity_state_derating:
  "find_entity_state self hass ''inverter_power_derating''
     = states hass ''number.inverter_power_derating''"
  by (simp add: find_entity_state_def)

text \<open>
  An adapter whose only collected key ends with \<^verbatim>\<open>inverter_power_derating\<close> and has a
  state: the name still resolves to the state of the fixed identifier, here none.
\<close>

theorem find_entity_state_derating_witness:
  "find_entity_state
     (one_sensor_inverter\<lparr>all_entities :=
        [(''sensor.inverter_power_derating'', sensor ''sensor.inverter_power_derating'' ''inv'')]\<rparr>)
     \<lparr>entities = [], devices = [],
      states = [''sensor.inverter_power_derating'' \<mapsto> \<lparr>state = ''80''\<rparr>]\<rparr>
     ''inverter_power_derating'' = None
   \<and> find_entity_state (one_sensor_inverter\<lparr>all_entities := []\<rparr>)
       \<lparr>entities = [], devices = [],
        states = [''number.inverter_power_derating'' \<mapsto> \<lparr>state = ''80''\<rparr>]\<rparr>
       ''inverter_power_derating'' = Some \<lparr>state = ''80''\<rparr>"
proof -
  have "states \<lparr>entities = [], devices = [],
      states = [''sensor.inverter_power_derating'' \<mapsto> \<lparr>state = ''80''\<rparr>]\<rparr>
      ''number.inverter_power_derating'' = None"
    by simp
  moreover have "states \<lparr>entities = [], devices = [],
        states = [''number.inverter_power_derating'' \<mapsto> \<lparr>state = ''80''\<rparr>]\<rparr>
      ''number.inverter_power_derating'' = Some \<lparr>state = ''80''\<rparr>"
    by simp
  ultimately show ?thesis
    by (simp only: find_entity_state_derating)
qed

text \<open>
  Claim C2. For a logical name other than \<^verbatim>\<open>inverter_power_derating\<close>: if some key of
  the collected entity set has the name as a suffix, the keys split at the first such key
  (no key before it has the suffix) and the result is the state machine's entry for that
  key; if no key has the suffix, the result is \<open>None\<close>.
\<close>

theorem find_entity_state_first_suffix:
  assumes "name \<noteq> ''inverter_power_derating''"
  shows "if (\<exists>k \<in> set (map fst (all_entities self)). suffix name k)
         then (\<exists>pre k post. map fst (all_entities self) = pre @ k # post
                 \<and> (\<forall>j \<in> set pre. \<not> suffix name j) \<and> suffix name k
                 \<and> find_entity_state self hass name = states hass k)
         else find_entity_state self hass name = None"
proof (cases "\<exists>k \<in> set (map fst (all_entities self)). suffix name k")
  case True
  from split_list_first_prop [OF True]
  obtain pre k post where split: "map fst (all_entities self) = pre @ k # post"
    and match: "suffix name k" and first: "\<forall>j \<in> set pre. \<not> suffix name j"
    by blast
  have "find_entity_state self hass name = states hass k"
    using assms find_entity_state_loop_first_match [OF first match]
    by (simp add: find_entity_state_def split)
  with split first match
  have "\<exists>pre k post. map fst (all_entities self) = pre @ k # post
          \<and> (\<forall>j \<in> set pre. \<not> suffix name j) \<and> suffix name k
          \<and> find_entity_state self hass name = states hass k"
    by blast
  with True show ?thesis
    by (simp only: if_True)
next
  case False
  then have "\<forall>k \<in> set (map fst (all_entities self)). \<not> suffix name k"
    by blast
  then have "find_entity_state self hass name = None"
    using assms by (simp add: find_entity_state_def find_entity_state_loop_no_match)
  with False show ?thesis
    by (simp only: if_False)
qed

lemma two_sensor_suffix:
  "suffix ''power_meter_phase_a_active_power''
     ''sensor.huawei_inverter_power_meter_phase_a_active_power''"
  "suffix ''power_meter_phase_a_active_power''
     ''sensor.other_power_meter_phase_a_active_power''"
  by (simp_all add: endswith_suffix [symmetric] endswith_def)

text \<open>
  Both keys of the two-sensor adapter end with the name; the state is that of the first.
\<close>

theorem find_entity_state_first_suffix_witness:
  "(\<exists>pre k post. map fst (all_entities two_sensor_inverter) = pre @ k # post
       \<and> (\<forall>j \<in> set pre. \<not> suffix ''power_meter_phase_a_active_power'' j)
       \<and> suffix ''power_meter_phase_a_active_power'' k
       \<and> find_entity_state two_sensor_inverter two_sensor_hass
            ''power_meter_phase_a_active_power'' = states two_sensor_hass k)
   \<and> find_entity_state two_sensor_inverter two_sensor_hass
        ''power_meter_phase_a_active_power'' = Some \<lparr>state = ''100''\<rparr>"
proof -
  have ne: "''power_meter_phase_a_active_power'' \<noteq> ''inverter_power_derating''"
    by simp
  have ex: "\<exists>k \<in> set (map fst (all_entities two_sensor_inverter)).
      suffix ''power_meter_phase_a_active_power'' k"
    using two_sensor_suffix by (simp add: two_sensor_inverter_def)
  have "\<exists>pre k post. map fst (all_entities two_sensor_inverter) = pre @ k # post
       \<and> (\<forall>j \<in> set pre. \<not> suffix ''power_meter_phase_a_active_power'' j)
       \<and> suffix ''power_meter_phase_a_active_power'' k
       \<and> find_entity_state two_sensor_inverter two_sensor_hass
            ''power_meter_phase_a_active_power'' = states two_sensor_hass k"
    using find_entity_state_first_suffix [OF ne, of two_sensor_inverter two_sensor_hass] ex
    by (simp only: if_True)
  moreover have "find_entity_state two_sensor_inverter two_sensor_hass
        ''power_meter_phase_a_active_power'' = Some \<lparr>state = ''100''\<rparr>"
    using two_sensor_suffix
    by (simp add: find_entity_state_def two_sensor_inverter_def two_sensor_hass_def
        endswith_suffix)
  ultimately show ?thesis ..
qed

text \<open>
  Claim C10. Resolution commits to the first key that has the name as a suffix: when the
  state machine has no entry for that key the result is \<open>None\<close>, whatever the keys after
  it are and whatever states they have.
\<close>

theorem find_entity_state_no_fall_through:
  assumes "name \<noteq> ''inverter_power_derating''"
    and "map fst (all_entities self) = pre @ k # post"
    and "\<forall>j \<in> set pre. \<not> suffix name j"
    and "suffix name k"
    and "states hass k = None"
  shows "find_entity_state self hass name = None"
proof -
  have "find_entity_state self hass name
          = find_entity_state_loop (states hass) (pre @ k # post) name"
    using assms(1,2) by (simp add: find_entity_state_def)
  also have "\<dots> = states hass k"
    by (rule find_entity_state_loop_first_match [OF assms(3,4)])
  finally show ?thesis
    using assms(5) by simp
qed

text \<open>
  In \<open>late_hass\<close> the first matching key has no state and the second, which also
  matches, has one.
\<close>

theorem find_entity_state_no_fall_through_witness:
  "suffix ''power_meter_phase_a_active_power'' ''sensor.other_power_meter_phase_a_active_power''
   \<and> states late_hass ''sensor.other_power_meter_phase_a_active_power'' = Some \<lparr>state = ''7''\<rparr>
   \<and> find_entity_state two_sensor_inverter late_hass ''power_meter_phase_a_active_power'' = None"
proof -
  have "find_entity_state two_sensor_inverter late_hass ''power_meter_phase_a_active_power''
          = None"
  proof (rule find_entity_state_no_fall_through
      [where pre = "[]" and k = "''sensor.huawei_inverter_power_meter_phase_a_active_power''"
         and post = "[''sensor.other_power_meter_phase_a_active_power'']"])
    show "''power_meter_phase_a_active_power'' \<noteq> ''inverter_power_derating''"
      by simp
    show "map fst (all_entities two_sensor_inverter)
            = [] @ ''sensor.huawei_inverter_power_meter_phase_a_active_power''
                # [''sensor.other_power_meter_phase_a_active_power'']"
      by (simp add: two_sensor_inverter_def)
    show "\<forall>j \<in> set []. \<not> suffix ''power_meter_phase_a_active_power'' j"
      by simp
    show "suffix ''power_meter_phase_a_active_power''
            ''sensor.huawei_inverter_power_meter_phase_a_active_power''"
      by (rule two_sensor_suffix)
    show "states late_hass ''sensor.huawei_inverter_power_meter_phase_a_active_power'' = None"
      by (simp add: late_hass_def)
  qed
  moreover have "states late_hass ''sensor.other_power_meter_phase_a_active_power''
      = Some \<lparr>state = ''7''\<rparr>"
    by (simp add: late_hass_def)
  ultimately show ?thesis
    using two_sensor_suffix(2) by simp
qed

section \<open>Typed extraction\<close>

lemma one_sensor_find:
  "find_entity_state one_sensor_inverter (one_sensor_hass t) ''x'' = Some \<lparr>state = t\<rparr>"
  "find_entity_state one_sensor_inverter (one_sensor_hass t) ''y'' = None"
  by (simp_all add: find_entity_state_def one_sensor_inverter_def one_sensor_hass_def
      endswith_def)

lemma get_state_float_is_double:
  "is_double d \<Longrightarrow> is_double (get_state_float self hass name d)"
  by (auto simp: get_state_float_def dest: float_of_str_is_double split: option.splits)

text \<open>
  Claim C8. \<^verbatim>\<open>get_state_float\<close> returns the default when the name resolves to no
  state, when the state's text is \<^verbatim>\<open>unknown\<close>, \<^verbatim>\<open>unavailable\<close> or empty, and when
  \<^verbatim>\<open>float\<close> rejects the text, as it rejects \<^verbatim>\<open>N/A\<close>; in every other case it returns
  the float that \<^verbatim>\<open>float\<close> makes of the text.
\<close>

theorem get_state_float_default_or_parse:
  "(find_entity_state self hass name = None \<longrightarrow> get_state_float self hass name d = d)
   \<and> (\<forall>st. find_entity_state self hass name = Some st \<longrightarrow>
         (state st \<in> {''unknown'', ''unavailable'', ''''} \<longrightarrow>
            get_state_float self hass name d = d)
       \<and> (float_of_str (state st) = None \<longrightarrow> get_state_float self hass name d = d)
       \<and> (\<forall>x. state st \<notin> {''unknown'', ''unavailable'', ''''}
                 \<and> float_of_str (state st) = Some x \<longrightarrow>
               get_state_float self hass name d = x))
   \<and> float_of_str ''N/A'' = None"
proof (intro conjI allI impI)
  show "get_state_float self hass name d = d"
    if "find_entity_state self hass name = None"
    using that by (simp add: get_state_float_def)
next
  fix st
  assume st: "find_entity_state self hass name = Some st"
  show "get_state_float self hass name d = d"
    if "state st \<in> {''unknown'', ''unavailable'', ''''}"
    using that st by (auto simp: get_state_float_def no_data_def)
  show "get_state_float self hass name d = d"
    if "float_of_str (state st) = None"
    using that st by (simp add: get_state_float_def)
  show "get_state_float self hass name d = x"
    if "state st \<notin> {''unknown'', ''unavailable'', ''''} \<and> float_of_str (state st) = Some x"
    for x
    using that st by (simp add: get_state_float_def no_data_def)
next
  show "float_of_str ''N/A'' = None"
    by (rule parse_examples)
qed

text \<open>
  With the default \<^verbatim>\<open>7.0\<close>: the texts \<^verbatim>\<open>N/A\<close> and \<^verbatim>\<open>unknown\<close> and a name that
  resolves to nothing give the default, the text \<^verbatim>\<open>12.7\<close> gives the binary64 value
  nearest to 12.7.
\<close>

theorem get_state_float_default_or_parse_witness:
  "get_state_float one_sensor_inverter (one_sensor_hass ''N/A'') ''x'' (Finite False 7)
     = Finite False 7
   \<and> get_state_float one_sensor_inverter (one_sensor_hass ''unknown'') ''x'' (Finite False 7)
     = Finite False 7
   \<and> get_state_float one_sensor_inverter (one_sensor_hass ''12.7'') ''y'' (Finite False 7)
     = Finite False 7
   \<and> get_state_float one_sensor_inverter (one_sensor_hass ''12.7'') ''x'' (Finite False 7)
     = Finite False (3574732204225331 / 281474976710656)"
proof -
  note t = get_state_float_default_or_parse [of one_sensor_inverter _ _ "Finite False 7"]
  have "get_state_float one_sensor_inverter (one_sensor_hass ''N/A'') ''x'' (Finite False 7)
      = Finite False 7"
    using t [of "one_sensor_hass ''N/A''" "''x''"] one_sensor_find(1) [of "''N/A''"]
      parse_examples(1)
    by simp
  moreover
  have "get_state_float one_sensor_inverter (one_sensor_hass ''unknown'') ''x'' (Finite False 7)
      = Finite False 7"
    using t [of "one_sensor_hass ''unknown''" "''x''"] one_sensor_find(1) [of "''unknown''"]
    by simp
  moreover
  have "get_state_float one_sensor_inverter (one_sensor_hass ''12.7'') ''y'' (Finite False 7)
      = Finite False 7"
    using t [of "one_sensor_hass ''12.7''" "''y''"] one_sensor_find(2) [of "''12.7''"]
    by simp
  moreover
  have "get_state_float one_sensor_inverter (one_sensor_hass ''12.7'') ''x'' (Finite False 7)
      = Finite False (3574732204225331 / 281474976710656)"
    using t [of "one_sensor_hass ''12.7''" "''x''"] one_sensor_find(1) [of "''12.7''"]
      float_examples(4)
    by simp
  ultimately show ?thesis
    by blast
qed

text \<open>
  Claim C9. When the name resolves to a state whose text is not one of the three
  "no data" texts and \<^verbatim>\<open>float\<close> reads it as a finite value, \<^verbatim>\<open>get_state_int\<close> returns
  that value truncated toward zero: the floor of a value that is not negative, the
  ceiling of a negative one. The text \<^verbatim>\<open>12.7\<close> gives 12 and \<^verbatim>\<open>-12.7\<close> gives -12,
  whatever the default, and \<^verbatim>\<open>12.0\<close> gives 12.
\<close>

theorem get_state_int_truncates:
  assumes "find_entity_state self hass name = Some st"
  shows "(\<forall>sg q. state st \<notin> set no_data \<and> float_of_str (state st) = Some (Finite sg q) \<longrightarrow>
            get_state_int self hass name d
              = Inr (if 0 \<le> signed_value sg q then \<lfloor>signed_value sg q\<rfloor>
                     else \<lceil>signed_value sg q\<rceil>))
       \<and> (state st = ''12.7'' \<longrightarrow> get_state_int self hass name d = Inr 12)
       \<and> (state st = ''-12.7'' \<longrightarrow> get_state_int self hass name d = Inr (- 12))
       \<and> (state st = ''12.0'' \<longrightarrow> get_state_int self hass name d = Inr 12)"
proof (intro conjI allI impI)
  fix sg q
  assume a: "state st \<notin> set no_data \<and> float_of_str (state st) = Some (Finite sg q)"
  then have "is_double (Finite sg q)"
    by (blast intro: float_of_str_is_double)
  then have q: "0 \<le> q"
    by (simp add: is_double_def)
  have "get_state_int self hass name d = Inr (if sg then - \<lfloor>q\<rfloor> else \<lfloor>q\<rfloor>)"
    using assms a by (simp add: get_state_int_def)
  also have "(if sg then - \<lfloor>q\<rfloor> else \<lfloor>q\<rfloor>)
      = (if 0 \<le> signed_value sg q then \<lfloor>signed_value sg q\<rfloor> else \<lceil>signed_value sg q\<rceil>)"
    using q by (auto simp: signed_value_def ceiling_def)
  finally show "get_state_int self hass name d
      = Inr (if 0 \<le> signed_value sg q then \<lfloor>signed_value sg q\<rfloor> else \<lceil>signed_value sg q\<rceil>)" .
next
  assume "state st = ''12.7''"
  then show "get_state_int self hass name d = Inr 12"
    using assms
    by (simp add: get_state_int_def no_data_def float_examples floor_rat_numeral)
next
  assume "state st = ''-12.7''"
  then show "get_state_int self hass name d = Inr (- 12)"
    using assms
    by (simp add: get_state_int_def no_data_def float_examples floor_rat_numeral)
next
  assume "state st = ''12.0''"
  then show "get_state_int self hass name d = Inr 12"
    using assms
    by (simp add: get_state_int_def no_data_def float_examples)
qed

theorem get_state_int_truncates_witness:
  "get_state_int one_sensor_inverter (one_sensor_hass ''12.7'') ''x'' 5 = Inr 12
   \<and> get_state_int one_sensor_inverter (one_sensor_hass ''-12.7'') ''x'' 5 = Inr (- 12)
   \<and> get_state_int one_sensor_inverter (one_sensor_hass ''12.0'') ''x'' 5 = Inr 12"
  using get_state_int_truncates [OF one_sensor_find(1), of "''12.7''" 5]
    get_state_int_truncates [OF one_sensor_find(1), of "''-12.7''" 5]
    get_state_int_truncates [OF one_sensor_find(1), of "''12.0''" 5]
  by simp

text \<open>
  \<^verbatim>\<open>get_state_int\<close> raises exactly when the resolved text is read as an infinity, and
  then it raises \<^verbatim>\<open>OverflowError\<close>; \<^verbatim>\<open>get_state_float\<close> and \<^verbatim>\<open>get_state_text\<close> are
  total by their types.
\<close>

lemma get_state_int_raises_iff:
  "get_state_int self hass name d = Inl err \<longleftrightarrow>
     err = OverflowError \<and>
     (\<exists>st sg. find_entity_state self hass name = Some st \<and> state st \<notin> set no_data
        \<and> float_of_str (state st) = Some (Inf sg))"
proof (cases "find_entity_state self hass name")
  case None
  then show ?thesis
    by (simp add: get_state_int_def)
next
  case (Some st)
  show ?thesis
  proof (cases "float_of_str (state st)")
    case None
    then show ?thesis
      using Some by (simp add: get_state_int_def)
  next
    case (Some x)
    then show ?thesis
      using \<open>find_entity_state self hass name = Some st\<close>
      by (cases x) (auto simp: get_state_int_def)
  qed
qed

text \<open>
  Claim C4. The claim fails for \<^verbatim>\<open>get_state_int\<close>: when the state's text is \<^verbatim>\<open>inf\<close>,
  \<^verbatim>\<open>float\<close> accepts it and \<^verbatim>\<open>int\<close> of the infinity raises \<^verbatim>\<open>OverflowError\<close>, which the
  handler for \<^verbatim>\<open>ValueError\<close> does not catch; no default is returned, and
  \<^verbatim>\<open>get_metrics_data\<close> raises with it when the text is the battery's state of capacity.
\<close>

theorem get_state_int_inf_raises:
  "get_state_int one_sensor_inverter (one_sensor_hass ''inf'') ''x'' d = Inl OverflowError
   \<and> get_metrics_data
       (one_sensor_inverter\<lparr>all_entities :=
          [(''sensor.battery_state_of_capacity'',
            sensor ''sensor.battery_state_of_capacity'' ''inv'')]\<rparr>)
       \<lparr>entities = [], devices = [],
        states = [''sensor.battery_state_of_capacity'' \<mapsto> \<lparr>state = ''inf''\<rparr>]\<rparr>
     = Inl OverflowError"
proof -
  have inf: "float_of_str (state \<lparr>state = ''inf''\<rparr>) = Some (Inf False)"
    by (simp add: parse_examples)
  have data: "state \<lparr>state = ''inf''\<rparr> \<notin> set no_data"
    by (simp add: no_data_def)
  have 1: "get_state_int one_sensor_inverter (one_sensor_hass ''inf'') ''x'' d
      = Inl OverflowError"
    using one_sensor_find(1) [of "''inf''"] inf data
    by (simp add: get_state_int_def del: State.simps)
  have "find_entity_state
       (one_sensor_inverter\<lparr>all_entities :=
          [(''sensor.battery_state_of_capacity'',
            sensor ''sensor.battery_state_of_capacity'' ''inv'')]\<rparr>)
       \<lparr>entities = [], devices = [],
        states = [''sensor.battery_state_of_capacity'' \<mapsto> \<lparr>state = ''inf''\<rparr>]\<rparr>
       ''state_of_capacity'' = Some \<lparr>state = ''inf''\<rparr>"
    by (simp add: find_entity_state_def endswith_def)
  then have "get_state_int
       (one_sensor_inverter\<lparr>all_entities :=
          [(''sensor.battery_state_of_capacity'',
            sensor ''sensor.battery_state_of_capacity'' ''inv'')]\<rparr>)
       \<lparr>entities = [], devices = [],
        states = [''sensor.battery_state_of_capacity'' \<mapsto> \<lparr>state = ''inf''\<rparr>]\<rparr>
       ''state_of_capacity'' 0 = Inl OverflowError"
    using inf data by (simp add: get_state_int_def del: State.simps)
  then have 2: "get_metrics_data
       (one_sensor_inverter\<lparr>all_entities :=
          [(''sensor.battery_state_of_capacity'',
            sensor ''sensor.battery_state_of_capacity'' ''inv'')]\<rparr>)
       \<lparr>entities = [], devices = [],
        states = [''sensor.battery_state_of_capacity'' \<mapsto> \<lparr>state = ''inf''\<rparr>]\<rparr>
     = Inl OverflowError"
    by (simp add: get_metrics_data_def Let_def)
  from 1 2 show ?thesis ..
qed

section \<open>The energy and metrics records\<close>

lemma find_entity_state_voltage [simp]:
  "find_entity_state (self\<lparr>voltage := v\<rparr>) hass name = find_entity_state self hass name"
  by (simp add: find_entity_state_def)

lemma get_state_float_voltage [simp]:
  "get_state_float (self\<lparr>voltage := v\<rparr>) hass name d = get_state_float self hass name d"
  by (simp add: get_state_float_def)

lemma example_find:
  "find_entity_state example_inverter example_hass ''power_meter_phase_a_active_power''
     = Some \<lparr>state = ''100''\<rparr>"
  "find_entity_state example_inverter example_hass ''power_meter_phase_b_active_power''
     = Some \<lparr>state = ''200''\<rparr>"
  "find_entity_state example_inverter example_hass ''power_meter_phase_c_active_power''
     = Some \<lparr>state = ''300''\<rparr>"
  "find_entity_state example_inverter example_hass ''power_meter_consumption''
     = Some \<lparr>state = ''1500.5''\<rparr>"
  "find_entity_state example_inverter example_hass ''pv_1_voltage'' = Some \<lparr>state = ''40''\<rparr>"
  "find_entity_state example_inverter example_hass ''pv_1_current'' = Some \<lparr>state = ''5''\<rparr>"
  "find_entity_state example_inverter example_hass ''pv_2_voltage'' = Some \<lparr>state = ''0''\<rparr>"
  "find_entity_state example_inverter example_hass ''pv_2_current'' = Some \<lparr>state = ''0''\<rparr>"
  "find_entity_state example_inverter example_hass ''active_power''
     = Some \<lparr>state = ''5000''\<rparr>"
  "find_entity_state example_inverter example_hass ''power_meter_active_power''
     = Some \<lparr>state = ''-1200''\<rparr>"
  "find_entity_state example_inverter example_hass ''state_of_capacity'' = None"
  "find_entity_state example_inverter example_hass ''power_meter_phase_a_voltage'' = None"
  "find_entity_state example_inverter example_hass ''power_meter_phase_b_voltage'' = None"
  "find_entity_state example_inverter example_hass ''power_meter_phase_c_voltage'' = None"
  by (simp_all add: find_entity_state_def example_inverter_def example_all_entities_def
      example_hass_def endswith_def)

lemma example_readings:
  "get_state_float example_inverter example_hass ''power_meter_phase_a_active_power'' float_zero
     = Finite False 100"
  "get_state_float example_inverter example_hass ''power_meter_phase_b_active_power'' float_zero
     = Finite False 200"
  "get_state_float example_inverter example_hass ''power_meter_phase_c_active_power'' float_zero
     = Finite False 300"
  "get_state_float example_inverter example_hass ''power_meter_consumption'' float_zero
     = Finite False (3001 / 2)"
  "get_state_float example_inverter example_hass ''pv_1_voltage'' float_zero = Finite False 40"
  "get_state_float example_inverter example_hass ''pv_1_current'' float_zero = Finite False 5"
  "get_state_float example_inverter example_hass ''pv_2_voltage'' float_zero = Finite False 0"
  "get_state_float example_inverter example_hass ''pv_2_current'' float_zero = Finite False 0"
  "get_state_float example_inverter example_hass ''active_power'' float_zero
     = Finite False 5000"
  "get_state_float example_inverter example_hass ''power_meter_active_power'' float_zero
     = Finite True 1200"
  "get_state_float example_inverter example_hass ''power_meter_phase_a_voltage'' float_zero
     = Finite False 0"
  "get_state_float example_inverter example_hass ''power_meter_phase_b_voltage'' float_zero
     = Finite False 0"
  "get_state_float example_inverter example_hass ''power_meter_phase_c_voltage'' float_zero
     = Finite False 0"
  by (simp_all add: get_state_float_def example_find no_data_def float_examples float_zero_def)

text \<open>
  Claim C6. In the record of \<^verbatim>\<open>get_energy_data\<close>, \<open>Power\<close> holds the three per-phase
  active power readings, each multiplied by \<^verbatim>\<open>-1\<close>, which is each reading with its sign
  changed; \<open>Today\<close> is 0; \<open>Total\<close> is the consumption reading with its sign changed.
  A reading is what \<^verbatim>\<open>get_state_float\<close> returns for the name with the default \<^verbatim>\<open>0.0\<close>.
\<close>

theorem get_energy_data_power_today_total:
  "Power (fst (get_energy_data self hass))
     = map (\<lambda>name. f_mul (get_state_float self hass name float_zero) minus_one)
         [''power_meter_phase_a_active_power'', ''power_meter_phase_b_active_power'',
          ''power_meter_phase_c_active_power'']
   \<and> Power (fst (get_energy_data self hass))
     = map (\<lambda>name. f_neg (get_state_float self hass name float_zero))
         [''power_meter_phase_a_active_power'', ''power_meter_phase_b_active_power'',
          ''power_meter_phase_c_active_power'']
   \<and> Today (fst (get_energy_data self hass)) = 0
   \<and> Total (fst (get_energy_data self hass))
     = f_neg (get_state_float self hass ''power_meter_consumption'' float_zero)"
proof -
  have neg: "f_mul (get_state_float self hass name float_zero) minus_one
      = f_neg (get_state_float self hass name float_zero)" for name
    by (intro f_mul_minus_one get_state_float_is_double is_double_float_zero)
  have "Power (fst (get_energy_data self hass))
     = map (\<lambda>name. f_mul (get_state_float self hass name float_zero) minus_one)
         [''power_meter_phase_a_active_power'', ''power_meter_phase_b_active_power'',
          ''power_meter_phase_c_active_power'']"
    by (simp add: get_energy_data_def Let_def)
  moreover have "Today (fst (get_energy_data self hass)) = 0"
    by (simp add: get_energy_data_def Let_def)
  moreover have "Total (fst (get_energy_data self hass))
     = f_mul (get_state_float self hass ''power_meter_consumption'' float_zero) minus_one"
    by (simp add: get_energy_data_def Let_def)
  ultimately show ?thesis
    by (simp add: neg)
qed

text \<open>The phase readings 100, 200 and 300 give the powers -100, -200 and -300.\<close>

theorem get_energy_data_power_today_total_witness:
  "Power (fst (get_energy_data example_inverter example_hass))
     = [Finite True 100, Finite True 200, Finite True 300]
   \<and> Today (fst (get_energy_data example_inverter example_hass)) = 0
   \<and> Total (fst (get_energy_data example_inverter example_hass)) = Finite True (3001 / 2)"
  using get_energy_data_power_today_total [of example_inverter example_hass, THEN conjunct2]
  by (simp add: example_readings)

text \<open>
  Whenever the state-of-capacity lookup returns, \<^verbatim>\<open>get_metrics_data\<close> returns a
  record; in it \<open>PvPower\<close> holds the products of voltage and current of the two
  strings and \<open>LoadPower\<close> holds the one difference of the inverter's and the meter's
  active power, each operand being what \<^verbatim>\<open>get_state_float\<close> returns for the name with
  the default \<^verbatim>\<open>0.0\<close>.
\<close>

lemma get_metrics_data_pv_load:
  assumes "get_state_int self hass ''state_of_capacity'' 0 = Inr soc"
  shows "\<exists>m. get_metrics_data self hass = Inr m
     \<and> PvPower m
         = [f_mul (get_state_float self hass ''pv_1_voltage'' float_zero)
              (get_state_float self hass ''pv_1_current'' float_zero),
            f_mul (get_state_float self hass ''pv_2_voltage'' float_zero)
              (get_state_float self hass ''pv_2_current'' float_zero)]
     \<and> LoadPower m
         = [f_sub (get_state_float self hass ''active_power'' float_zero)
              (get_state_float self hass ''power_meter_active_power'' float_zero)]
     \<and> BatterySOC m = soc"
  using assms by (simp add: get_metrics_data_def Let_def)

lemma get_metrics_data_raises:
  "get_metrics_data self hass = Inl err \<longleftrightarrow>
     get_state_int self hass ''state_of_capacity'' 0 = Inl err"
  by (simp add: get_metrics_data_def Let_def split: sum.splits)

text \<open>
  String 1 at 40 V and 5 A, string 2 at 0 V and 0 A, the inverter at 5000 W and the
  meter at -1200 W: the PV powers are 200 and 0, the load power is 6200.
\<close>

lemma get_metrics_data_pv_load_example:
  "\<exists>m. get_metrics_data example_inverter example_hass = Inr m
     \<and> PvPower m = [Finite False 200, Finite False 0]
     \<and> LoadPower m = [Finite False 6200]"
proof -
  have soc: "get_state_int example_inverter example_hass ''state_of_capacity'' 0 = Inr 0"
    by (simp add: get_state_int_def example_find)
  have "f_mul (Finite False 40) (Finite False 5) = Finite False 200"
    and "f_mul (Finite False 0) (Finite False 0) = Finite False 0"
    and "f_sub (Finite False 5000) (Finite True 1200) = Finite False 6200"
    by (simp_all add: f_sub_def signed_value_def round_examples)
  with get_metrics_data_pv_load [OF soc]
  obtain m where "get_metrics_data example_inverter example_hass = Inr m"
    and "PvPower m = [Finite False 200, Finite False 0]"
    and "LoadPower m = [Finite False 6200]"
    by (auto simp: example_readings)
  then show ?thesis
    by blast
qed

lemma overflow_find:
  "find_entity_state overflow_inverter overflow_hass ''state_of_capacity''
     = Some \<lparr>state = ''inf''\<rparr>"
  "find_entity_state overflow_inverter overflow_hass ''pv_1_voltage'' = Some \<lparr>state = ''40''\<rparr>"
  "find_entity_state overflow_inverter overflow_hass ''pv_1_current'' = Some \<lparr>state = ''5''\<rparr>"
  by (simp_all add: find_entity_state_def overflow_inverter_def overflow_hass_def
      example_all_entities_def example_hass_def endswith_def)

text \<open>
  Claim C7. The claim fails where \<^verbatim>\<open>get_metrics_data\<close> returns no record: with string 1
  at 40 V and 5 A and the battery's state of capacity reporting the text \<^verbatim>\<open>inf\<close>, the
  state-of-capacity lookup raises \<^verbatim>\<open>OverflowError\<close> and so does \<^verbatim>\<open>get_metrics_data\<close>;
  there is no record whose \<open>PvPower\<close> could hold the product 200.
\<close>

theorem get_metrics_data_no_record:
  "get_state_float overflow_inverter overflow_hass ''pv_1_voltage'' float_zero = Finite False 40
   \<and> get_state_float overflow_inverter overflow_hass ''pv_1_current'' float_zero
       = Finite False 5
   \<and> get_metrics_data overflow_inverter overflow_hass = Inl OverflowError
   \<and> \<not> (\<exists>m. get_metrics_data overflow_inverter overflow_hass = Inr m)"
proof -
  have "float_of_str (state \<lparr>state = ''inf''\<rparr>) = Some (Inf False)"
    by (simp add: parse_examples)
  moreover have "state \<lparr>state = ''inf''\<rparr> \<notin> set no_data"
    by (simp add: no_data_def)
  ultimately have "get_state_int overflow_inverter overflow_hass ''state_of_capacity'' 0
      = Inl OverflowError"
    using overflow_find(1) by (simp add: get_state_int_def del: State.simps)
  then have raises: "get_metrics_data overflow_inverter overflow_hass = Inl OverflowError"
    by (simp add: get_metrics_data_raises)
  have "get_state_float overflow_inverter overflow_hass ''pv_1_voltage'' float_zero
      = Finite False 40"
    and "get_state_float overflow_inverter overflow_hass ''pv_1_current'' float_zero
      = Finite False 5"
    by (simp_all add: get_state_float_def overflow_find no_data_def float_examples)
  with raises show ?thesis
    by simp
qed

text \<open>
  The operands are resolved by suffix. With the collected keys in the opposite order the
  name \<^verbatim>\<open>active_power\<close> finds a phase of the power meter before the inverter.
\<close>

lemma active_power_suffix_capture:
  "find_entity_state (example_inverter\<lparr>all_entities := rev example_all_entities\<rparr>)
     example_hass ''active_power'' = Some \<lparr>state = ''300''\<rparr>"
  by (simp add: find_entity_state_def example_all_entities_def example_hass_def endswith_def)

text \<open>
  Claim C3, as stated, fails: \<^verbatim>\<open>get_energy_data\<close> assigns \<^verbatim>\<open>self.voltage\<close>, so the
  adapter after the call differs from the adapter before it.
\<close>

theorem get_energy_data_not_pure:
  "\<not> (\<forall>(self :: HuaweiInverter) hass. snd (get_energy_data self hass) = self)"
proof
  assume "\<forall>(self :: HuaweiInverter) hass. snd (get_energy_data self hass) = self"
  then have "voltage (snd (get_energy_data example_inverter example_hass))
      = voltage example_inverter"
    by simp
  then show False
    by (simp add: get_energy_data_def Let_def example_inverter_def)
qed

lemma find_entity_state_cong:
  "all_entities self' = all_entities self \<Longrightarrow> states hass' = states hass \<Longrightarrow>
     find_entity_state self' hass' name = find_entity_state self hass name"
  by (simp add: find_entity_state_def)

lemma get_state_float_cong:
  "all_entities self' = all_entities self \<Longrightarrow> states hass' = states hass \<Longrightarrow>
     get_state_float self' hass' name d = get_state_float self hass name d"
  by (simp add: get_state_float_def find_entity_state_cong [of self' self hass' hass])

text \<open>
  Claim C3, amended. The one attribute \<^verbatim>\<open>get_energy_data\<close> writes is \<^verbatim>\<open>voltage\<close>, which
  becomes the list of the three phase voltage readings that is also the record's
  \<open>Voltage\<close>; the device identifier, the collected entity set and every attribute of
  the base class are unchanged. The record is a function of the collected entity set and
  the state machine's current content only: two adapters with the same collected entity
  set, in two platforms with the same states, get the same record, whatever their other
  attributes and whatever the registries hold. In particular it does not depend on the
  value \<^verbatim>\<open>voltage\<close> had before the call, and a second call in the same platform state
  returns the same record and the same adapter.
\<close>

theorem get_energy_data_frame:
  "snd (get_energy_data self hass)
     = self\<lparr>voltage := Some (Voltage (fst (get_energy_data self hass)))\<rparr>
   \<and> Voltage (fst (get_energy_data self hass))
     = map (\<lambda>name. get_state_float self hass name float_zero)
         [''power_meter_phase_a_voltage'', ''power_meter_phase_b_voltage'',
          ''power_meter_phase_c_voltage'']
   \<and> self_device_id (snd (get_energy_data self hass)) = self_device_id self
   \<and> all_entities (snd (get_energy_data self hass)) = all_entities self
   \<and> HuaweiInverter.more (snd (get_energy_data self hass)) = HuaweiInverter.more self
   \<and> fst (get_energy_data (self\<lparr>voltage := v\<rparr>) hass) = fst (get_energy_data self hass)
   \<and> get_energy_data (snd (get_energy_data self hass)) hass = get_energy_data self hass
   \<and> (\<forall>(self' :: 'b HuaweiInverter_scheme) hass'.
         all_entities self' = all_entities self \<and> states hass' = states hass \<longrightarrow>
         fst (get_energy_data self' hass') = fst (get_energy_data self hass))"
proof -
  have indep: "fst (get_energy_data (self\<lparr>voltage := v\<rparr>) hass) = fst (get_energy_data self hass)"
    for v
    by (simp add: get_energy_data_def Let_def)
  have upd: "snd (get_energy_data self hass)
      = self\<lparr>voltage := Some (Voltage (fst (get_energy_data self hass)))\<rparr>"
    for self :: "'a HuaweiInverter_scheme"
    by (simp add: get_energy_data_def Let_def)
  have again: "get_energy_data (snd (get_energy_data self hass)) hass = get_energy_data self hass"
  proof (rule prod_eqI)
    show "fst (get_energy_data (snd (get_energy_data self hass)) hass)
        = fst (get_energy_data self hass)"
      by (subst upd) (rule indep)
    then show "snd (get_energy_data (snd (get_energy_data self hass)) hass)
        = snd (get_energy_data self hass)"
      by (simp add: upd)
  qed
  have "Voltage (fst (get_energy_data self hass))
     = map (\<lambda>name. get_state_float self hass name float_zero)
         [''power_meter_phase_a_voltage'', ''power_meter_phase_b_voltage'',
          ''power_meter_phase_c_voltage'']"
    by (simp add: get_energy_data_def Let_def)
  moreover have "fst (get_energy_data self' hass') = fst (get_energy_data self hass)"
    if "all_entities self' = all_entities self \<and> states hass' = states hass"
    for self' :: "'b HuaweiInverter_scheme" and hass'
  proof -
    from that have "get_state_float self' hass' name d = get_state_float self hass name d"
      for name d
      by (intro get_state_float_cong) simp_all
    then show ?thesis
      by (simp add: get_energy_data_def Let_def)
  qed
  ultimately show ?thesis
    using indep upd again by simp
qed

text \<open>
  The example adapter has no \<^verbatim>\<open>voltage\<close> before the call and the three readings after
  it. An adapter for another device identifier with the same collected entity set, in a
  platform with empty registries and the same states, gets the same record.
\<close>

theorem get_energy_data_frame_witness:
  "voltage example_inverter = None
   \<and> snd (get_energy_data example_inverter example_hass)
     = example_inverter\<lparr>voltage := Some [Finite False 0, Finite False 0, Finite False 0]\<rparr>
   \<and> get_energy_data (snd (get_energy_data example_inverter example_hass)) example_hass
     = get_energy_data example_inverter example_hass
   \<and> self_device_id (example_inverter\<lparr>self_device_id := ''elsewhere''\<rparr>)
       \<noteq> self_device_id example_inverter
   \<and> entities (example_hass\<lparr>entities := [], devices := []\<rparr>) \<noteq> entities example_hass
   \<and> fst (get_energy_data (example_inverter\<lparr>self_device_id := ''elsewhere''\<rparr>)
            (example_hass\<lparr>entities := [], devices := []\<rparr>))
     = fst (get_energy_data example_inverter example_hass)"
proof -
  note frame = get_energy_data_frame [of example_inverter example_hass None]
  note written = frame [THEN conjunct1]
  note readings = frame [THEN conjunct2, THEN conjunct1]
  note rest = frame [THEN conjunct2, THEN conjunct2, THEN conjunct2, THEN conjunct2,
    THEN conjunct2, THEN conjunct2]
  have v: "Voltage (fst (get_energy_data example_inverter example_hass))
      = [Finite False 0, Finite False 0, Finite False 0]"
    using readings by (simp add: example_readings)
  have 1: "snd (get_energy_data example_inverter example_hass)
      = example_inverter\<lparr>voltage := Some [Finite False 0, Finite False 0, Finite False 0]\<rparr>"
    using written by (simp only: v)
  have 2: "get_energy_data (snd (get_energy_data example_inverter example_hass)) example_hass
      = get_energy_data example_inverter example_hass"
    by (rule rest [THEN conjunct1])
  have 3: "voltage example_inverter = None"
    by (simp add: example_inverter_def)
  have same: "all_entities (example_inverter\<lparr>self_device_id := ''elsewhere''\<rparr>)
        = all_entities example_inverter
      \<and> states (example_hass\<lparr>entities := [], devices := []\<rparr>) = states example_hass"
    by simp
  have 4: "fst (get_energy_data (example_inverter\<lparr>self_device_id := ''elsewhere''\<rparr>)
            (example_hass\<lparr>entities := [], devices := []\<rparr>))
     = fst (get_energy_data example_inverter example_hass)"
    by (rule rest [THEN conjunct2, rule_format, OF same])
  have 5: "self_device_id (example_inverter\<lparr>self_device_id := ''elsewhere''\<rparr>)
       \<noteq> self_device_id example_inverter"
    by (simp add: example_inverter_def)
  have 6: "entities (example_hass\<lparr>entities := [], devices := []\<rparr>) \<noteq> entities example_hass"
    by (simp add: example_hass_def)
  from 1 2 3 4 5 6 show ?thesis
    by blast
qed

end
